theory Spec2Isabelle
  imports Main "HOL-Library.Word"
begin

unbundle bit_operations_syntax

section \<open>Chain shell (p2p/shell/chainshell.go): data model\<close>

text \<open>
  The shell manager keeps the table of active peers, the known-key map and the map of
  pending key negotiations. The model keeps the fields the broadcast and deduplication
  paths read or write. Fields used only for logging or by other tasks (scheduler and task
  node pointers, local subnet tables, the shared rx channel, the ticker, the mutexes) are
  left out; every function below runs as one critical section, as the sequential reading
  of the source does.
\<close>

type_synonym byte = "8 word"
type_synonym DsKey = "byte list"
type_synonym NodeID = "byte list"
type_synonym SubNetworkID = "byte list"

text \<open>
  \<open>sch.SchErrno\<close>: the enumerators the sources under study return. Their numeric values
  are declared outside these sources; only their being different matters here.
\<close>

datatype SchErrno =
    SchEnoNone
  | SchEnoParameter
  | SchEnoResource
  | SchEnoNotFound
  | SchEnoDuplicated
  | SchEnoMismatched
  | SchEnoInternal
  | SchEnoUserTask
  | SchEnoSuspended
  | SchEnoKilled
  | SchEnoPowerOff
  | SchEnoUnknown

text \<open>A Go \<open>error\<close> value: a scheduler errno returned as error, or \<open>errors.New\<close>.\<close>

datatype goerror = ErrSchErrno SchErrno | ErrNew string

text \<open>
  A buffered Go channel: the queued elements and the capacity. A send on a channel whose
  buffer is full does not return in the sequential model: \<open>chanSend\<close> is \<open>None\<close> there.
\<close>

record 'a chan =
  buf :: "'a list"
  cap :: nat

definition chanLen :: "'a chan \<Rightarrow> nat" where
  "chanLen c = length (buf c)"

definition chanSend :: "'a chan \<Rightarrow> 'a \<Rightarrow> 'a chan option" where
  "chanSend c x = (if chanLen c < cap c then Some (c\<lparr>buf := buf c @ [x]\<rparr>) else None)"

record P2pPackage =
  Pid :: "32 word"
  Mid :: "32 word"
  pkg_Key :: "byte list"
  PayloadLength :: "32 word"
  Payload :: "byte list"

record PeerInfo =
  pi_Snid :: SubNetworkID
  pi_Dir :: int
  pi_NodeId :: NodeID

record P2pPackageRx =
  rx_PeerInfo :: PeerInfo
  rx_ProtoId :: int
  rx_MsgId :: int
  rx_Key :: "byte list"
  rx_PayloadLength :: int
  rx_Payload :: "byte list"

record CheckKey =
  chkk_Key :: "byte list"

record ReportKey =
  rptk_Key :: "byte list"
  rptk_Status :: "32 word"

record ExtMessage =
  em_Mid :: "32 word"
  em_Chkk :: CheckKey
  em_Rptk :: ReportKey

record MsgShellBroadcastReq =
  MsgType :: int
  req_Key :: "byte list"
  req_Data :: "byte list"
  Exclude :: "NodeID option"

record shellPeerID =
  snid :: SubNetworkID
  dir :: int
  nodeId :: NodeID

record shellPeerInst = shellPeerID +
  txChan :: "P2pPackage chan"
  pi :: nat
  status :: int
  txDiscrd :: "64 word"

definition pisActive :: int where
  "pisActive = 0"

definition pisClosing :: int where
  "pisClosing = 1"

record deDupKey =
  key :: DsKey
  peer :: shellPeerID

record deDupVal =
  bcReq :: MsgShellBroadcastReq
  timer :: "nat option"

definition chkkTime :: int where
  "chkkTime = 8 * 1000000000"

definition keyTime :: int where
  "keyTime = 55 * 1000000000"

definition SKM_OK :: int where
  "SKM_OK = 0"

definition SKM_DUPLICATED :: int where
  "SKM_DUPLICATED = 1"

definition SKM_FAILED :: int where
  "SKM_FAILED = 2"

text \<open>
  Modelled from the spec: the wire values of the report status of package
  \<open>peer\<close> (\<open>KS_NOTEXIST\<close>, \<open>KS_EXIST\<close>), which the spec gives as
  \<open>EXIST=1, NOTEXIST=0\<close>.
\<close>

definition KS_NOTEXIST :: "32 word" where
  "KS_NOTEXIST = 0"

definition KS_EXIST :: "32 word" where
  "KS_EXIST = 1"

subsection \<open>The deduplication timer manager\<close>

text \<open>
  Modelled from the spec: \<open>dht.TimerManager\<close> (GetTimer, SetTimerData, StartTimer,
  KillTimer, TickProc) is not among the sources. A timer is a handle with a duration, the
  data set on it, the callback to run on expiry and whether it has been started. Whether
  GetTimer and StartTimer report an error is decided by the absent implementation: the
  model takes that decision as the parameters \<open>GetTimerEno\<close> and \<open>StartTimerEno\<close>
  of the environment below. On expiry the tick procedure removes the timer and runs its
  callback with its data; KillTimer removes the timer without running the callback.
\<close>

datatype TmErrno = TmEnoNone | TmEnoOther nat

datatype TimerCallback = CbDeDupTimer | CbDeDupKey

datatype TimerData = DataNil | DataDsKey DsKey | DataDeDupKey deDupKey

record tmTimer =
  tmDur :: int
  tmData :: TimerData
  tmCb :: TimerCallback
  tmStarted :: bool

record TimerManager =
  tmTimers :: "nat \<rightharpoonup> tmTimer"
  tmNext :: nat

text \<open>
  The parts of the environment that are declared outside these sources: constants of
  packages \<open>config\<close>, \<open>peer\<close> and \<open>sch\<close>, the package encoders and decoder of
  \<open>peer.P2pPackage\<close> (\<open>None\<close> is an encode or decode failure), and the error
  decisions of the timer manager.
\<close>

record extern =
  DsKeyLength :: nat
  PID_EXT :: int
  MID_CHKK :: int
  MID_RPTK :: int
  MSBR_MT_EV :: int
  MSBR_MT_TX :: int
  MSBR_MT_BLKH :: int
  MSBR_MT_BLK :: int
  pkgCheckKey :: "nat \<Rightarrow> CheckKey \<Rightarrow> P2pPackage option"
  pkgReportKey :: "nat \<Rightarrow> ReportKey \<Rightarrow> P2pPackage option"
  GetExtMessage :: "P2pPackage \<Rightarrow> ExtMessage option"
  GetTimerEno :: "TimerManager \<Rightarrow> int \<Rightarrow> TmErrno"
  StartTimerEno :: "TimerManager \<Rightarrow> nat \<Rightarrow> TmErrno"

text \<open>
  Modelled from the spec: \<open>TimerManager.GetTimer\<close>, which hands out a new timer, not
  yet started, or reports an error.
\<close>

definition GetTimer ::
  "extern \<Rightarrow> TimerManager \<Rightarrow> int \<Rightarrow> TimerData \<Rightarrow> TimerCallback
     \<Rightarrow> TimerManager \<times> nat option \<times> TmErrno" where
  "GetTimer E mgr d dat cb =
     (case GetTimerEno E mgr d of
        TmEnoNone \<Rightarrow>
          (mgr\<lparr>tmTimers := (tmTimers mgr)(tmNext mgr \<mapsto>
                   \<lparr>tmDur = d, tmData = dat, tmCb = cb, tmStarted = False\<rparr>),
               tmNext := Suc (tmNext mgr)\<rparr>,
           Some (tmNext mgr), TmEnoNone)
      | TmEnoOther e \<Rightarrow> (mgr, None, TmEnoOther e))"

text \<open>
  Modelled from the spec: \<open>TimerManager.SetTimerData\<close>, which stores the data that
  the callback receives on expiry.
\<close>

definition SetTimerData :: "TimerManager \<Rightarrow> nat option \<Rightarrow> TimerData \<Rightarrow> TimerManager" where
  "SetTimerData mgr tm dat =
     (case tm of
        None \<Rightarrow> mgr
      | Some h \<Rightarrow>
          (case tmTimers mgr h of
             None \<Rightarrow> mgr
           | Some t \<Rightarrow> mgr\<lparr>tmTimers := (tmTimers mgr)(h \<mapsto> t\<lparr>tmData := dat\<rparr>)\<rparr>))"

text \<open>
  Modelled from the spec: \<open>TimerManager.StartTimer\<close>, which arms the timer or reports
  an error.
\<close>

definition StartTimer ::
  "extern \<Rightarrow> TimerManager \<Rightarrow> nat option \<Rightarrow> TimerManager \<times> TmErrno" where
  "StartTimer E mgr tm =
     (case tm of
        None \<Rightarrow> (mgr, TmEnoOther 0)
      | Some h \<Rightarrow>
          (case tmTimers mgr h of
             None \<Rightarrow> (mgr, TmEnoOther 0)
           | Some t \<Rightarrow>
               (case StartTimerEno E mgr h of
                  TmEnoNone \<Rightarrow>
                    (mgr\<lparr>tmTimers := (tmTimers mgr)(h \<mapsto> t\<lparr>tmStarted := True\<rparr>)\<rparr>, TmEnoNone)
                | TmEnoOther e \<Rightarrow> (mgr, TmEnoOther e))))"

text \<open>
  Modelled from the spec: \<open>TimerManager.KillTimer\<close>, which removes the timer; its
  callback does not run. The shell drops the value it returns.
\<close>

definition KillTimer :: "TimerManager \<Rightarrow> nat option \<Rightarrow> TimerManager" where
  "KillTimer mgr tm =
     (case tm of
        None \<Rightarrow> mgr
      | Some h \<Rightarrow> mgr\<lparr>tmTimers := (tmTimers mgr)(h := None)\<rparr>)"

subsection \<open>The shell manager\<close>

record shMgrBcrStat =
  bcrCount :: "64 word"
  bcrEvCount :: "64 word"
  bcrTxCount :: "64 word"
  bcrBhCount :: "64 word"
  bcrBkCount :: "64 word"
  bcrUnknown :: "64 word"
  bcrSkmFailed :: "64 word"
  bcrSkmOk :: "64 word"
  bcrExclude :: "64 word"
  bcrUnactive :: "64 word"
  bcrSendOk :: "64 word"
  bcrSendFailed :: "64 word"
  bcrChkkOk :: "64 word"
  bcrChkkFailed :: "64 word"

record ShellManager =
  peerActived :: "shellPeerID \<rightharpoonup> shellPeerInst"
  deDup :: bool
  tmDedup :: TimerManager
  deDupKeyMap :: "DsKey \<rightharpoonup> nat option"
  deDupMap :: "deDupKey \<rightharpoonup> deDupVal"
  bcrStat :: shMgrBcrStat

text \<open>
  Go's \<open>copy(key[0:], bs)\<close> into a zeroed array of \<open>DsKeyLength\<close> bytes: the first
  bytes of \<open>bs\<close>, cut or padded with zeros to the array's length.
\<close>

definition copyKey :: "extern \<Rightarrow> byte list \<Rightarrow> DsKey" where
  "copyKey E bs = take (DsKeyLength E) bs @ replicate (DsKeyLength E - length bs) 0"

section \<open>Chain shell: sending to one peer\<close>

definition bcr2Package :: "extern \<Rightarrow> MsgShellBroadcastReq \<Rightarrow> P2pPackage option" where
  "bcr2Package E req =
     Some \<lparr>Pid = word_of_int (PID_EXT E),
           Mid = word_of_int (MsgType req),
           pkg_Key = req_Key req,
           PayloadLength = of_nat (length (req_Data req)),
           Payload = req_Data req\<rparr>"

text \<open>
  The result of a send is \<open>None\<close> when the goroutine would block on the channel, and
  otherwise the peer instance as the call leaves it, with the value returned.
\<close>

definition send2Peer ::
  "extern \<Rightarrow> shellPeerInst \<Rightarrow> MsgShellBroadcastReq \<Rightarrow> (shellPeerInst \<times> SchErrno) option" where
  "send2Peer E spi req =
     (if chanLen (txChan spi) \<ge> cap (txChan spi)
      then Some (spi\<lparr>txDiscrd := txDiscrd spi + 1\<rparr>, SchEnoResource)
      else (case bcr2Package E req of
              None \<Rightarrow> Some (spi, SchEnoUserTask)
            | Some pkg \<Rightarrow>
                (case chanSend (txChan spi) pkg of
                   None \<Rightarrow> None
                 | Some c \<Rightarrow> Some (spi\<lparr>txChan := c\<rparr>, SchEnoNone))))"

definition checkKey2Peer ::
  "extern \<Rightarrow> shellPeerInst \<Rightarrow> deDupKey \<Rightarrow> (shellPeerInst \<times> goerror option) option" where
  "checkKey2Peer E spi ddk =
     (if chanLen (txChan spi) \<ge> cap (txChan spi)
      then Some (spi\<lparr>txDiscrd := txDiscrd spi + 1\<rparr>, Some (ErrSchErrno SchEnoResource))
      else (case pkgCheckKey E (pi spi) \<lparr>chkk_Key = key ddk\<rparr> of
              None \<Rightarrow> Some (spi, Some (ErrNew ''checkKey2Peer: ReportKey failed''))
            | Some upkg \<Rightarrow>
                (case chanSend (txChan spi) upkg of
                   None \<Rightarrow> None
                 | Some c \<Rightarrow> Some (spi\<lparr>txChan := c\<rparr>, None))))"

definition reportKey2Peer ::
  "extern \<Rightarrow> shellPeerInst \<Rightarrow> DsKey \<Rightarrow> 32 word \<Rightarrow> (shellPeerInst \<times> goerror option) option" where
  "reportKey2Peer E spi k st =
     (if chanLen (txChan spi) \<ge> cap (txChan spi)
      then Some (spi\<lparr>txDiscrd := txDiscrd spi + 1\<rparr>, Some (ErrSchErrno SchEnoResource))
      else (case pkgReportKey E (pi spi) \<lparr>rptk_Key = k, rptk_Status = st\<rparr> of
              None \<Rightarrow> Some (spi, Some (ErrNew ''reportKey2Peer: ReportKey failed''))
            | Some upkg \<Rightarrow>
                (case chanSend (txChan spi) upkg of
                   None \<Rightarrow> None
                 | Some c \<Rightarrow> Some (spi\<lparr>txChan := c\<rparr>, None))))"

section \<open>Chain shell: the known-key map\<close>

definition checkKeyMap :: "ShellManager \<Rightarrow> DsKey \<Rightarrow> int" where
  "checkKeyMap s k = (if deDupKeyMap s k \<noteq> None then SKM_DUPLICATED else SKM_OK)"

text \<open>
  \<open>setKeyMap\<close>: the value tested after \<open>StartTimer\<close> is \<open>err\<close>, the result of
  \<open>GetTimer\<close>; the result of \<open>StartTimer\<close> itself is dropped, as in the source
  (\<open>if shMgr.tmDedup.StartTimer(tm); err != dht.TmEnoNone\<close>).
\<close>

definition setKeyMap :: "extern \<Rightarrow> ShellManager \<Rightarrow> DsKey \<Rightarrow> ShellManager \<times> int" where
  "setKeyMap E s k =
     (if deDupKeyMap s k \<noteq> None then (s, SKM_DUPLICATED)
      else (case GetTimer E (tmDedup s) keyTime DataNil CbDeDupKey of
              (mgr1, tm, err) \<Rightarrow>
                if err \<noteq> TmEnoNone then (s\<lparr>tmDedup := mgr1\<rparr>, SKM_FAILED)
                else (let mgr2 = SetTimerData mgr1 tm (DataDsKey k);
                          mgr3 = fst (StartTimer E mgr2 tm)
                      in if err \<noteq> TmEnoNone then (s\<lparr>tmDedup := mgr3\<rparr>, SKM_FAILED)
                         else (s\<lparr>tmDedup := mgr3,
                                 deDupKeyMap := (deDupKeyMap s)(k \<mapsto> tm)\<rparr>, SKM_OK))))"

definition deDupKeyCb :: "ShellManager \<Rightarrow> TimerData \<Rightarrow> ShellManager \<times> goerror option" where
  "deDupKeyCb s dat =
     (case dat of
        DataDsKey k \<Rightarrow> (s\<lparr>deDupKeyMap := (deDupKeyMap s)(k := None)\<rparr>, None)
      | _ \<Rightarrow> (s, Some (ErrNew ''deDupKeyCb: invalid timer data'')))"

definition deDupTimerCb :: "ShellManager \<Rightarrow> TimerData \<Rightarrow> ShellManager \<times> goerror option" where
  "deDupTimerCb s dat =
     (case dat of
        DataDeDupKey ddk \<Rightarrow>
          (if deDupMap s ddk \<noteq> None
           then (s\<lparr>deDupMap := (deDupMap s)(ddk := None)\<rparr>, None)
           else (s, Some (ErrNew ''deDupTimerCb: not found'')))
      | _ \<Rightarrow> (s, Some (ErrNew ''deDupTimerCb: invalid data'')))"

text \<open>
  Modelled from the spec: the expiry of one timer inside \<open>TimerManager.TickProc\<close>,
  which is not among the sources. A started timer that is still held by the manager is
  removed and its callback runs with the data set on it; the callback's result is dropped.
\<close>

definition timerExpired :: "ShellManager \<Rightarrow> nat \<Rightarrow> ShellManager" where
  "timerExpired s h =
     (case tmTimers (tmDedup s) h of
        None \<Rightarrow> s
      | Some t \<Rightarrow>
          if \<not> tmStarted t then s
          else (let s1 = s\<lparr>tmDedup := (tmDedup s)\<lparr>tmTimers := (tmTimers (tmDedup s))(h := None)\<rparr>\<rparr>
                in (case tmCb t of
                      CbDeDupKey \<Rightarrow> fst (deDupKeyCb s1 (tmData t))
                    | CbDeDupTimer \<Rightarrow> fst (deDupTimerCb s1 (tmData t)))))"

section \<open>Chain shell: key negotiation and broadcast\<close>

definition checkKey ::
  "extern \<Rightarrow> ShellManager \<Rightarrow> shellPeerInst \<Rightarrow> shellPeerID \<Rightarrow> MsgShellBroadcastReq
     \<Rightarrow> (ShellManager \<times> SchErrno) option" where
  "checkKey E s pe pid req =
     (let ddk = \<lparr>key = copyKey E (req_Key req), peer = pid\<rparr> in
      case peerActived s pid of
        None \<Rightarrow> Some (s, SchEnoNotFound)
      | Some pai \<Rightarrow>
          if deDupMap s ddk \<noteq> None then Some (s, SchEnoDuplicated)
          else (case checkKey2Peer E pai ddk of
                  None \<Rightarrow> None
                | Some (pai', err) \<Rightarrow>
                    (let s1 = s\<lparr>peerActived := (peerActived s)(pid \<mapsto> pai')\<rparr> in
                     if err \<noteq> None then Some (s1, SchEnoUserTask)
                     else (case GetTimer E (tmDedup s1) chkkTime DataNil CbDeDupTimer of
                             (mgr1, tm, terr) \<Rightarrow>
                               if terr \<noteq> TmEnoNone
                               then Some (s1\<lparr>tmDedup := mgr1\<rparr>, SchEnoUserTask)
                               else (let mgr2 = SetTimerData mgr1 tm (DataDeDupKey ddk);
                                         ddv = \<lparr>bcReq = req, timer = tm\<rparr>;
                                         s2 = s1\<lparr>deDupMap := (deDupMap s1)(ddk \<mapsto> ddv)\<rparr>
                                     in (case StartTimer E mgr2 tm of
                                           (mgr3, serr) \<Rightarrow>
                                             if serr \<noteq> TmEnoNone
                                             then Some (s2\<lparr>tmDedup := mgr3\<rparr>, SchEnoUserTask)
                                             else Some (s2\<lparr>tmDedup := mgr3\<rparr>, SchEnoNone)))))))"

text \<open>The local counters of one \<open>broadcastReq\<close> call, read by the deferred \<open>doStat\<close>.\<close>

record bcrLocal =
  skmFailed :: int
  skmOk :: int
  exclude :: int
  unactive :: int
  sendOk :: int
  sendFailed :: int
  chkkOk :: int
  chkkFailed :: int

definition bcrLocal0 :: bcrLocal where
  "bcrLocal0 = \<lparr>skmFailed = 0, skmOk = 0, exclude = 0, unactive = 0,
                sendOk = 0, sendFailed = 0, chkkOk = 0, chkkFailed = 0\<rparr>"

text \<open>\<open>doStat\<close> adds \<open>skmFailed\<close> to \<open>bcrSkmOk\<close>, as the source does.\<close>

definition doStat :: "extern \<Rightarrow> int \<Rightarrow> bcrLocal \<Rightarrow> shMgrBcrStat \<Rightarrow> shMgrBcrStat" where
  "doStat E mt c st =
     (let st1 = st\<lparr>bcrCount := bcrCount st + 1\<rparr>;
          st2 = (if mt = MSBR_MT_EV E then st1\<lparr>bcrEvCount := bcrEvCount st1 + 1\<rparr>
                 else if mt = MSBR_MT_TX E then st1\<lparr>bcrTxCount := bcrTxCount st1 + 1\<rparr>
                 else if mt = MSBR_MT_BLKH E then st1\<lparr>bcrBhCount := bcrBhCount st1 + 1\<rparr>
                 else if mt = MSBR_MT_BLK E then st1\<lparr>bcrBkCount := bcrBkCount st1 + 1\<rparr>
                 else st1\<lparr>bcrUnknown := bcrUnknown st1 + 1\<rparr>)
      in st2\<lparr>bcrSkmFailed := bcrSkmFailed st2 + word_of_int (skmFailed c),
              bcrSkmOk := bcrSkmOk st2 + word_of_int (skmFailed c),
              bcrExclude := bcrExclude st2 + word_of_int (exclude c),
              bcrUnactive := bcrUnactive st2 + word_of_int (unactive c),
              bcrSendOk := bcrSendOk st2 + word_of_int (sendOk c),
              bcrSendFailed := bcrSendFailed st2 + word_of_int (sendFailed c),
              bcrChkkOk := bcrChkkOk st2 + word_of_int (chkkOk c),
              bcrChkkFailed := bcrChkkFailed st2 + word_of_int (chkkFailed c)\<rparr>)"

text \<open>
  The loop \<open>for id, pe := range shMgr.peerActived\<close>. Go visits the keys of the map in an
  order it does not fix: the order is the list \<open>ids\<close>, any enumeration of the keys.
  \<open>pe\<close> is the pointer stored under the key, so what a send changes in the peer
  instance is written back under that key.
\<close>

fun bcrPeers ::
  "extern \<Rightarrow> MsgShellBroadcastReq \<Rightarrow> shellPeerID list \<Rightarrow> ShellManager \<Rightarrow> bcrLocal
     \<Rightarrow> (ShellManager \<times> bcrLocal) option" where
  "bcrPeers E req [] s c = Some (s, c)"
| "bcrPeers E req (pid # ids) s c =
     (case peerActived s pid of
        None \<Rightarrow> bcrPeers E req ids s c
      | Some pe \<Rightarrow>
          if status pe \<noteq> pisActive
          then bcrPeers E req ids s (c\<lparr>unactive := unactive c + 1\<rparr>)
          else if (case Exclude req of None \<Rightarrow> True | Some ex \<Rightarrow> nodeId pid \<noteq> ex)
          then (if deDup s = False
                then (case send2Peer E pe req of
                        None \<Rightarrow> None
                      | Some (pe', eno) \<Rightarrow>
                          bcrPeers E req ids (s\<lparr>peerActived := (peerActived s)(pid \<mapsto> pe')\<rparr>)
                            (if eno = SchEnoNone then c\<lparr>sendOk := sendOk c + 1\<rparr>
                             else c\<lparr>sendFailed := sendFailed c + 1\<rparr>))
                else (case checkKey E s pe pid req of
                        None \<Rightarrow> None
                      | Some (s', eno) \<Rightarrow>
                          bcrPeers E req ids s'
                            (if eno = SchEnoNone then c\<lparr>chkkOk := chkkOk c + 1\<rparr>
                             else c\<lparr>chkkFailed := chkkFailed c + 1\<rparr>)))
          else bcrPeers E req ids s (c\<lparr>exclude := exclude c + 1\<rparr>))"

definition broadcastReq ::
  "extern \<Rightarrow> shellPeerID list \<Rightarrow> ShellManager \<Rightarrow> MsgShellBroadcastReq
     \<Rightarrow> (ShellManager \<times> SchErrno) option" where
  "broadcastReq E ids s req =
     (let mt = MsgType req in
      if mt = MSBR_MT_EV E \<or> mt = MSBR_MT_TX E \<or> mt = MSBR_MT_BLKH E \<or> mt = MSBR_MT_BLK E
      then (let k = copyKey E (req_Key req) in
            if deDup s
            then (case setKeyMap E s k of
                    (s1, skm) \<Rightarrow>
                      if skm = SKM_DUPLICATED \<or> skm = SKM_FAILED
                      then Some (s1\<lparr>bcrStat := doStat E mt (bcrLocal0\<lparr>skmFailed := 1\<rparr>) (bcrStat s1)\<rparr>,
                                 SchEnoUserTask)
                      else (case bcrPeers E req ids s1 (bcrLocal0\<lparr>skmOk := 1\<rparr>) of
                              None \<Rightarrow> None
                            | Some (s2, c) \<Rightarrow>
                                Some (s2\<lparr>bcrStat := doStat E mt c (bcrStat s2)\<rparr>, SchEnoNone)))
            else (case bcrPeers E req ids s bcrLocal0 of
                    None \<Rightarrow> None
                  | Some (s2, c) \<Rightarrow>
                      Some (s2\<lparr>bcrStat := doStat E mt c (bcrStat s2)\<rparr>, SchEnoNone)))
      else Some (s\<lparr>bcrStat := doStat E mt bcrLocal0 (bcrStat s)\<rparr>, SchEnoParameter))"

section \<open>Chain shell: frames received from a peer\<close>

definition rx2Package :: "P2pPackageRx \<Rightarrow> P2pPackage" where
  "rx2Package rxPkg =
     \<lparr>Pid = word_of_int (rx_ProtoId rxPkg),
      Mid = word_of_int (rx_MsgId rxPkg),
      pkg_Key = rx_Key rxPkg,
      PayloadLength = word_of_int (rx_PayloadLength rxPkg),
      Payload = rx_Payload rxPkg\<rparr>"

definition rxPeerID :: "P2pPackageRx \<Rightarrow> shellPeerID" where
  "rxPeerID rxPkg =
     \<lparr>snid = pi_Snid (rx_PeerInfo rxPkg),
      dir = pi_Dir (rx_PeerInfo rxPkg),
      nodeId = pi_NodeId (rx_PeerInfo rxPkg)\<rparr>"

definition checkKeyFromPeer ::
  "extern \<Rightarrow> ShellManager \<Rightarrow> P2pPackageRx \<Rightarrow> (ShellManager \<times> SchErrno) option" where
  "checkKeyFromPeer E s rxPkg =
     (case GetExtMessage E (rx2Package rxPkg) of
        None \<Rightarrow> Some (s, SchEnoUserTask)
      | Some msg \<Rightarrow>
          if em_Mid msg \<noteq> word_of_int (MID_CHKK E) then Some (s, SchEnoUserTask)
          else (let k = copyKey E (rx_Key rxPkg); spid = rxPeerID rxPkg in
                case peerActived s spid of
                  None \<Rightarrow> Some (s, SchEnoNotFound)
                | Some pai \<Rightarrow>
                    if status pai \<noteq> pisActive then Some (s, SchEnoNotFound)
                    else (let st = (if deDupKeyMap s k \<noteq> None then KS_EXIST else KS_NOTEXIST) in
                          case reportKey2Peer E pai k st of
                            None \<Rightarrow> None
                          | Some (pai', err) \<Rightarrow>
                              (let s1 = s\<lparr>peerActived := (peerActived s)(spid \<mapsto> pai')\<rparr> in
                               if err \<noteq> None then Some (s1, SchEnoUserTask)
                               else Some (s1, SchEnoNone)))))"

definition reportKeyFromPeer ::
  "extern \<Rightarrow> ShellManager \<Rightarrow> P2pPackageRx \<Rightarrow> (ShellManager \<times> SchErrno) option" where
  "reportKeyFromPeer E s rxPkg =
     (case GetExtMessage E (rx2Package rxPkg) of
        None \<Rightarrow> Some (s, SchEnoUserTask)
      | Some msg \<Rightarrow>
          if em_Mid msg \<noteq> word_of_int (MID_RPTK E) then Some (s, SchEnoUserTask)
          else (let spid = rxPeerID rxPkg in
                case peerActived s spid of
                  None \<Rightarrow> Some (s, SchEnoNotFound)
                | Some pai \<Rightarrow>
                    if status pai \<noteq> pisActive then Some (s, SchEnoNotFound)
                    else (let ddk = \<lparr>key = copyKey E (rx_Key rxPkg), peer = spid\<rparr> in
                          case deDupMap s ddk of
                            None \<Rightarrow> Some (s, SchEnoNotFound)
                          | Some ddv \<Rightarrow>
                              (let s1 = s\<lparr>tmDedup := KillTimer (tmDedup s) (timer ddv),
                                          deDupMap := (deDupMap s)(ddk := None)\<rparr>
                               in if rptk_Status (em_Rptk msg) = KS_NOTEXIST
                                  then (case send2Peer E pai (bcReq ddv) of
                                          None \<Rightarrow> None
                                        | Some (pai', eno) \<Rightarrow>
                                            Some (s1\<lparr>peerActived := (peerActived s1)(spid \<mapsto> pai')\<rparr>,
                                                  eno))
                                  else Some (s1, SchEnoNone)))))"

text \<open>
  \<open>peerAskToCloseInd\<close>: an active peer becomes closing, and a close request for it goes
  to the peer manager (the third component of the result).
\<close>

record MsgShellPeerAskToCloseInd =
  ind_Snid :: SubNetworkID
  ind_PeerId :: NodeID
  ind_Dir :: int

record MsgPeCloseReq =
  pcr_Snid :: SubNetworkID
  pcr_Node :: NodeID
  pcr_Dir :: int

definition peerAskToCloseInd ::
  "ShellManager \<Rightarrow> MsgShellPeerAskToCloseInd
     \<Rightarrow> ShellManager \<times> SchErrno \<times> MsgPeCloseReq option" where
  "peerAskToCloseInd s ind =
     (let peerId = \<lparr>snid = ind_Snid ind, dir = ind_Dir ind, nodeId = ind_PeerId ind\<rparr> in
      case peerActived s peerId of
        None \<Rightarrow> (s, SchEnoNotFound, None)
      | Some peerInst \<Rightarrow>
          if status peerInst \<noteq> pisActive then (s, SchEnoMismatched, None)
          else (s\<lparr>peerActived := (peerActived s)(peerId \<mapsto> peerInst\<lparr>status := pisClosing\<rparr>)\<rparr>,
                SchEnoNone,
                Some \<lparr>pcr_Snid = snid peerId, pcr_Node = nodeId peerId, pcr_Dir = dir peerId\<rparr>))"

section \<open>Scheduler (p2p/scheduler/schimpl.go): task nodes and their two lists\<close>

text \<open>
  The scheduler owns a fixed pool of task nodes. A pointer to a task node is its index in
  the pool, \<open>None\<close> is \<open>nil\<close>. The free list and the busy list are circular doubly
  linked lists threaded through the \<open>last\<close> and \<open>next\<close> pointers of the nodes. What
  panics in Go (a nil pointer dereferenced, an index out of range, a channel made with a
  negative size) is a value of the result. Channels of a task are kept as what the code
  tests of them: whether they are nil, and the mailbox capacity. The goroutines started
  with \<open>go\<close> are not part of the model.
\<close>

datatype gopanic = NilDereference | IndexOutOfRange | NegativeChanSize

record SchWatchDog =
  HaveDog :: bool
  Inited :: bool
  Cycle :: int
  BiteCounter :: int
  DieThreshold :: int

record schTask =
  name :: string
  utep :: "nat option"
  mbQue :: "nat option"
  mbSize :: int
  doneCh :: bool
  stoppedCh :: bool
  dog :: SchWatchDog
  dieCb :: "nat option"
  userData :: "nat option"
  goStatus :: int
  tmTab :: "nat option list"
  tmIdxTab :: "nat \<rightharpoonup> int"

record schTaskNode =
  task :: schTask
  n_last :: "nat option"
  n_next :: "nat option"

record scheduler =
  tkMap :: "string \<rightharpoonup> nat"
  tmMap :: "nat \<rightharpoonup> nat"
  schTaskNodePool :: "schTaskNode list"
  freeSize :: int
  tkFree :: "nat option"
  busySize :: int
  tkBusy :: "nat option"

text \<open>
  The constants of package \<open>scheduler\<close> that are declared outside these sources.
  \<open>schMaxTaskTimer\<close> is the number of timer slots of a task: \<open>schSetTimer\<close> reports
  the table full at \<open>tid >= schMaxTaskTimer\<close> and \<open>schTcbClean\<close> walks the slots
  \<open>0 .. schMaxTaskTimer - 1\<close>.
\<close>

record schconst =
  schTaskNodePoolSize :: int
  schMaxTaskTimer :: int
  SchCreatedGo :: int
  SchCreatedSuspend :: int

record SchTaskDescription =
  td_Name :: string
  td_MbSize :: int
  td_Ep :: "nat option"
  td_Wd :: "SchWatchDog option"
  td_Flag :: int
  td_DieCb :: "nat option"
  td_UserDa :: "nat option"

definition setLast :: "scheduler \<Rightarrow> nat \<Rightarrow> nat option \<Rightarrow> scheduler" where
  "setLast sdl p v =
     sdl\<lparr>schTaskNodePool := (schTaskNodePool sdl)[p := (schTaskNodePool sdl ! p)\<lparr>n_last := v\<rparr>]\<rparr>"

definition setNext :: "scheduler \<Rightarrow> nat \<Rightarrow> nat option \<Rightarrow> scheduler" where
  "setNext sdl p v =
     sdl\<lparr>schTaskNodePool := (schTaskNodePool sdl)[p := (schTaskNodePool sdl ! p)\<lparr>n_next := v\<rparr>]\<rparr>"

definition setTask :: "scheduler \<Rightarrow> nat \<Rightarrow> schTask \<Rightarrow> scheduler" where
  "setTask sdl p t =
     sdl\<lparr>schTaskNodePool := (schTaskNodePool sdl)[p := (schTaskNodePool sdl ! p)\<lparr>task := t\<rparr>]\<rparr>"

definition zeroTask :: "schconst \<Rightarrow> schTask" where
  "zeroTask K =
     \<lparr>name = [], utep = None, mbQue = None, mbSize = 0, doneCh = False, stoppedCh = False,
      dog = \<lparr>HaveDog = False, Inited = False, Cycle = 0, BiteCounter = 0, DieThreshold = 0\<rparr>,
      dieCb = None, userData = None, goStatus = 0,
      tmTab = replicate (nat (schMaxTaskTimer K)) None, tmIdxTab = Map.empty\<rparr>"

definition schSchedulerInit :: "schconst \<Rightarrow> scheduler" where
  "schSchedulerInit K =
     \<lparr>tkMap = Map.empty,
      tmMap = Map.empty,
      schTaskNodePool =
        map (\<lambda>loop. \<lparr>task = zeroTask K,
                      n_last = Some (nat ((loop - 1 + schTaskNodePoolSize K)
                                          AND (schTaskNodePoolSize K - 1))),
                      n_next = Some (nat ((loop + 1) AND (schTaskNodePoolSize K - 1)))\<rparr>)
            [0 .. schTaskNodePoolSize K - 1],
      freeSize = schTaskNodePoolSize K,
      tkFree = Some 0,
      busySize = 0,
      tkBusy = None\<rparr>"

definition schGetTaskNode :: "scheduler \<Rightarrow> gopanic + (scheduler \<times> SchErrno \<times> nat option)" where
  "schGetTaskNode sdl =
     (case tkFree sdl of
        None \<Rightarrow> Inr (sdl, SchEnoResource, None)
      | Some tkn \<Rightarrow>
          (let n = schTaskNodePool sdl ! tkn in
           if n_last n = Some tkn \<and> n_next n = Some tkn
           then (let sdl1 = sdl\<lparr>tkFree := None, freeSize := freeSize sdl - 1\<rparr> in
                 if freeSize sdl1 \<noteq> 0 then Inr (sdl1, SchEnoInternal, None)
                 else Inr (setLast (setNext sdl1 tkn (Some tkn)) tkn (Some tkn),
                           SchEnoNone, Some tkn))
           else (case (n_last n, n_next n) of
                   (Some l, Some x) \<Rightarrow>
                     (let sdl1 = setNext (setLast sdl x (Some l)) l (Some x);
                          sdl2 = sdl1\<lparr>tkFree := Some x, freeSize := freeSize sdl1 - 1\<rparr>
                      in if freeSize sdl2 \<le> 0 then Inr (sdl2, SchEnoInternal, None)
                         else Inr (setLast (setNext sdl2 tkn (Some tkn)) tkn (Some tkn),
                                   SchEnoNone, Some tkn))
                 | _ \<Rightarrow> Inl NilDereference)))"

definition schRetTaskNode :: "scheduler \<Rightarrow> nat option \<Rightarrow> gopanic + (scheduler \<times> SchErrno)" where
  "schRetTaskNode sdl ptn =
     (case ptn of
        None \<Rightarrow> Inr (sdl, SchEnoParameter)
      | Some p \<Rightarrow>
          (case tkFree sdl of
             None \<Rightarrow>
               Inr ((setNext (setLast sdl p (Some p)) p (Some p))
                      \<lparr>tkFree := Some p, freeSize := freeSize sdl + 1\<rparr>, SchEnoNone)
           | Some f \<Rightarrow>
               (case n_last (schTaskNodePool sdl ! f) of
                  None \<Rightarrow> Inl NilDereference
                | Some l \<Rightarrow>
                    (let sdl1 = setLast sdl p (Some l);
                         sdl2 = setNext sdl1 l (Some p);
                         sdl3 = setNext sdl2 p (Some f);
                         sdl4 = setLast sdl3 f (Some p)
                     in Inr (sdl4\<lparr>tkFree := Some p, freeSize := freeSize sdl + 1\<rparr>,
                             SchEnoNone)))))"

definition schTaskBusyEnque :: "scheduler \<Rightarrow> nat option \<Rightarrow> gopanic + (scheduler \<times> SchErrno)" where
  "schTaskBusyEnque sdl ptn =
     (case ptn of
        None \<Rightarrow> Inr (sdl, SchEnoParameter)
      | Some p \<Rightarrow>
          (case tkBusy sdl of
             None \<Rightarrow>
               Inr ((setNext (setLast sdl p (Some p)) p (Some p))
                      \<lparr>tkBusy := Some p, busySize := busySize sdl + 1\<rparr>, SchEnoNone)
           | Some b \<Rightarrow>
               (case n_last (schTaskNodePool sdl ! b) of
                  None \<Rightarrow> Inl NilDereference
                | Some l \<Rightarrow>
                    (let sdl1 = setLast sdl p (Some l);
                         sdl2 = setNext sdl1 l (Some p);
                         sdl3 = setNext sdl2 p (Some b);
                         sdl4 = setLast sdl3 b (Some p)
                     in Inr (sdl4\<lparr>tkBusy := Some p, busySize := busySize sdl + 1\<rparr>,
                             SchEnoNone)))))"

definition schTaskBusyDeque :: "scheduler \<Rightarrow> nat option \<Rightarrow> gopanic + (scheduler \<times> SchErrno)" where
  "schTaskBusyDeque sdl ptn =
     (case ptn of
        None \<Rightarrow> Inr (sdl, SchEnoParameter)
      | Some p \<Rightarrow>
          if busySize sdl \<le> 0 then Inr (sdl, SchEnoInternal)
          else if busySize sdl = 1
          then (if tkBusy sdl \<noteq> Some p then Inr (sdl, SchEnoInternal)
                else Inr (sdl\<lparr>tkBusy := None, busySize := 0\<rparr>, SchEnoNone))
          else (let n = schTaskNodePool sdl ! p in
                if n_last n = Some p \<and> n_next n = Some p
                then (if Some p = tkBusy sdl
                      then (let sdl1 = sdl\<lparr>tkBusy := None, busySize := busySize sdl - 1\<rparr> in
                            if busySize sdl1 \<noteq> 0 then Inr (sdl1, SchEnoInternal)
                            else Inr (sdl1, SchEnoNone))
                      else Inr (sdl, SchEnoInternal))
                else (case (n_last n, n_next n) of
                        (Some l, Some x) \<Rightarrow>
                          (let sdl1 = setLast (setNext sdl l (Some x)) x (Some l);
                               sdl2 = (if tkBusy sdl1 = Some p then sdl1\<lparr>tkBusy := Some x\<rparr>
                                       else sdl1);
                               sdl3 = sdl2\<lparr>busySize := busySize sdl2 - 1\<rparr>
                           in if busySize sdl3 \<le> 0 then Inr (sdl3, SchEnoInternal)
                              else Inr (sdl3, SchEnoNone))
                      | _ \<Rightarrow> Inl NilDereference)))"

text \<open>
  \<open>strings.TrimSpace\<close> on the bytes of the name: the ASCII white space (tab, line
  feed, vertical tab, form feed, carriage return, space) is cut from both ends. Task names
  are taken to be ASCII; the white space beyond ASCII that Go trims as well (U+0085,
  U+00A0 and the other Unicode spaces) is not modelled.
\<close>

definition isSpace :: "char \<Rightarrow> bool" where
  "isSpace c = (c \<in> set [CHR 0x09, CHR 0x0A, CHR 0x0B, CHR 0x0C, CHR 0x0D, CHR '' ''])"

definition TrimSpace :: "string \<Rightarrow> string" where
  "TrimSpace s = rev (dropWhile isSpace (rev (dropWhile isSpace s)))"

definition schCreateTask ::
  "schconst \<Rightarrow> scheduler \<Rightarrow> SchTaskDescription option
     \<Rightarrow> gopanic + (scheduler \<times> SchErrno \<times> nat option)" where
  "schCreateTask K sdl taskDesc =
     (case taskDesc of
        None \<Rightarrow> Inr (sdl, SchEnoParameter, None)
      | Some td \<Rightarrow>
          (case schGetTaskNode sdl of
             Inl pn \<Rightarrow> Inl pn
           | Inr (sdl1, eno, ptn) \<Rightarrow>
               (case ptn of
                  None \<Rightarrow> Inr (sdl1, eno, None)
                | Some p \<Rightarrow>
                    if eno \<noteq> SchEnoNone then Inr (sdl1, eno, None)
                    else if td_MbSize td < 0 then Inl NegativeChanSize
                    else (case td_Wd td of
                            None \<Rightarrow> Inl NilDereference
                          | Some wd \<Rightarrow>
                              (let t0 = task (schTaskNodePool sdl1 ! p);
                                   t1 = t0\<lparr>name := TrimSpace (td_Name td),
                                           utep := td_Ep td,
                                           mbQue := Some (nat (td_MbSize td)),
                                           mbSize := td_MbSize td,
                                           doneCh := True,
                                           stoppedCh := True,
                                           dog := wd,
                                           dieCb := td_DieCb td,
                                           userData := td_UserDa td,
                                           tmTab := map (\<lambda>ptm. None) (tmTab t0),
                                           tmIdxTab := Map.empty\<rparr>;
                                   sdl2 = setTask sdl1 p t1
                               in if length (name t1) \<noteq> 0 \<and> tkMap sdl2 (name t1) \<noteq> None
                                  then Inr (sdl2, SchEnoDuplicated, None)
                                  else (let sdl3 = (if length (name t1) \<le> 0 then sdl2
                                                    else sdl2\<lparr>tkMap := (tkMap sdl2)(name t1 \<mapsto> p)\<rparr>)
                                        in case schTaskBusyEnque sdl3 (Some p) of
                                             Inl pn \<Rightarrow> Inl pn
                                           | Inr (sdl4, eno4) \<Rightarrow>
                                               if eno4 \<noteq> SchEnoNone then Inr (sdl4, eno4, None)
                                               else (let t4 = task (schTaskNodePool sdl4 ! p) in
                                                     if td_Flag td = SchCreatedGo K
                                                     then Inr (setTask sdl4 p (t4\<lparr>goStatus := SchCreatedGo K\<rparr>),
                                                               SchEnoNone, Some p)
                                                     else if td_Flag td = SchCreatedSuspend K
                                                     then Inr (setTask sdl4 p (t4\<lparr>goStatus := SchCreatedSuspend K\<rparr>),
                                                               SchEnoNone, Some p)
                                                     else Inr (setTask sdl4 p (t4\<lparr>goStatus := SchCreatedSuspend K\<rparr>),
                                                               SchEnoSuspended, Some p))))))))"

text \<open>
  \<open>schKillTimer\<close>. The value \<open>stopped\<close> is what the timer's goroutine answers on the
  \<open>stopped\<close> channel after the stop signal; the cleaning of the slot is done by that
  goroutine (\<open>schTimerCommonTask\<close>) and is not part of this function.
\<close>

definition schKillTimer ::
  "schconst \<Rightarrow> scheduler \<Rightarrow> nat option \<Rightarrow> int \<Rightarrow> bool \<Rightarrow> gopanic + SchErrno" where
  "schKillTimer K sdl ptn tid stopped =
     (case ptn of
        None \<Rightarrow> Inr SchEnoParameter
      | Some p \<Rightarrow>
          if tid < 0 \<or> tid > schMaxTaskTimer K then Inr SchEnoParameter
          else (let tab = tmTab (task (schTaskNodePool sdl ! p)) in
                if \<not> nat tid < length tab then Inl IndexOutOfRange
                else (case tab ! nat tid of
                        None \<Rightarrow> Inr SchEnoNone
                      | Some tm \<Rightarrow> if stopped then Inr SchEnoNone else Inr SchEnoInternal)))"

text \<open>
  The two lists as the code can walk them: from the head along \<open>next\<close> until the head
  comes back, at most as many steps as the pool has nodes.
\<close>

fun ringFrom :: "schTaskNode list \<Rightarrow> nat \<Rightarrow> nat \<Rightarrow> nat \<Rightarrow> nat list" where
  "ringFrom pool h cur 0 = []"
| "ringFrom pool h cur (Suc fuel) =
     cur # (case n_next (pool ! cur) of
              None \<Rightarrow> []
            | Some x \<Rightarrow> if x = h then [] else ringFrom pool h x fuel)"

definition listNodes :: "schTaskNode list \<Rightarrow> nat option \<Rightarrow> nat list" where
  "listNodes pool hd_ptr =
     (case hd_ptr of None \<Rightarrow> [] | Some h \<Rightarrow> ringFrom pool h h (length pool))"

definition freeNodes :: "scheduler \<Rightarrow> nat list" where
  "freeNodes sdl = listNodes (schTaskNodePool sdl) (tkFree sdl)"

definition busyNodes :: "scheduler \<Rightarrow> nat list" where
  "busyNodes sdl = listNodes (schTaskNodePool sdl) (tkBusy sdl)"

text \<open>
  The invariant of the two lists: the sizes add up to the pool size, and every node of the
  pool is in exactly one of the lists.
\<close>

definition taskListsInv :: "scheduler \<Rightarrow> bool" where
  "taskListsInv sdl =
     (freeSize sdl + busySize sdl = int (length (schTaskNodePool sdl)) \<and>
      list_all (\<lambda>i. (i \<in> set (freeNodes sdl)) \<noteq> (i \<in> set (busyNodes sdl)))
               [0 ..< length (schTaskNodePool sdl)])"

section \<open>Example configurations\<close>

text \<open>
  A small environment and small shell states on which the functions above are run: keys of
  four bytes, package encoders that keep the key and the status in the package, a decoder
  that reads them back, and a timer manager that reports no error.
\<close>

definition exampleExtern :: extern where
  "exampleExtern =
     \<lparr>DsKeyLength = 4, PID_EXT = 3, MID_CHKK = 4, MID_RPTK = 5,
      MSBR_MT_EV = 0, MSBR_MT_TX = 1, MSBR_MT_BLKH = 2, MSBR_MT_BLK = 3,
      pkgCheckKey = (\<lambda>p ck. Some \<lparr>Pid = 3, Mid = 4, pkg_Key = chkk_Key ck,
                                     PayloadLength = 0, Payload = []\<rparr>),
      pkgReportKey = (\<lambda>p rk. Some \<lparr>Pid = 3, Mid = 5, pkg_Key = rptk_Key rk,
                                      PayloadLength = 1, Payload = [ucast (rptk_Status rk)]\<rparr>),
      GetExtMessage = (\<lambda>pkg. Some \<lparr>em_Mid = Mid pkg,
                                      em_Chkk = \<lparr>chkk_Key = pkg_Key pkg\<rparr>,
                                      em_Rptk = \<lparr>rptk_Key = pkg_Key pkg,
                                                 rptk_Status = (case Payload pkg of
                                                                  [] \<Rightarrow> 0
                                                                | b # bs \<Rightarrow> ucast b)\<rparr>\<rparr>),
      GetTimerEno = (\<lambda>mgr d. TmEnoNone),
      StartTimerEno = (\<lambda>mgr h. TmEnoNone)\<rparr>"

definition examplePeerID :: "byte \<Rightarrow> shellPeerID" where
  "examplePeerID n = \<lparr>snid = [0, 0], dir = 0, nodeId = [n]\<rparr>"

definition examplePeer :: "byte \<Rightarrow> nat \<Rightarrow> int \<Rightarrow> P2pPackage list \<Rightarrow> shellPeerInst" where
  "examplePeer n c st q =
     \<lparr>snid = [0, 0], dir = 0, nodeId = [n],
      txChan = \<lparr>buf = q, cap = c\<rparr>, pi = unat n, status = st, txDiscrd = 0\<rparr>"

definition exampleStat :: shMgrBcrStat where
  "exampleStat =
     \<lparr>bcrCount = 0, bcrEvCount = 0, bcrTxCount = 0, bcrBhCount = 0, bcrBkCount = 0,
      bcrUnknown = 0, bcrSkmFailed = 0, bcrSkmOk = 0, bcrExclude = 0, bcrUnactive = 0,
      bcrSendOk = 0, bcrSendFailed = 0, bcrChkkOk = 0, bcrChkkFailed = 0\<rparr>"

definition exampleShell :: "bool \<Rightarrow> (shellPeerID \<rightharpoonup> shellPeerInst) \<Rightarrow> ShellManager" where
  "exampleShell dd peers =
     \<lparr>peerActived = peers, deDup = dd,
      tmDedup = \<lparr>tmTimers = Map.empty, tmNext = 0\<rparr>,
      deDupKeyMap = Map.empty, deDupMap = Map.empty, bcrStat = exampleStat\<rparr>"

definition exampleReq :: MsgShellBroadcastReq where
  "exampleReq = \<lparr>MsgType = 0, req_Key = [170], req_Data = [104, 105], Exclude = None\<rparr>"

definition examplePkg :: P2pPackage where
  "examplePkg = \<lparr>Pid = 3, Mid = 0, pkg_Key = [1], PayloadLength = 0, Payload = []\<rparr>"

definition failingStart :: extern where
  "failingStart = exampleExtern\<lparr>StartTimerEno := (\<lambda>mgr h. TmEnoOther 1)\<rparr>"

definition exampleKey :: DsKey where
  "exampleKey = [170, 0, 0, 0]"

definition examplePending :: "int \<Rightarrow> nat \<Rightarrow> P2pPackage list \<Rightarrow> ShellManager" where
  "examplePending st c q =
     (exampleShell True [examplePeerID 1 \<mapsto> examplePeer 1 c st q])
       \<lparr>tmDedup := \<lparr>tmTimers = [0 \<mapsto> \<lparr>tmDur = chkkTime,
                                         tmData = DataDeDupKey \<lparr>key = exampleKey, peer = examplePeerID 1\<rparr>,
                                         tmCb = CbDeDupTimer, tmStarted = True\<rparr>],
                    tmNext = 1\<rparr>,
        deDupMap := [\<lparr>key = exampleKey, peer = examplePeerID 1\<rparr>
                       \<mapsto> \<lparr>bcReq = exampleReq, timer = Some 0\<rparr>]\<rparr>"

definition exampleKnown :: ShellManager where
  "exampleKnown =
     (exampleShell True [examplePeerID 1 \<mapsto> examplePeer 1 2 pisActive []])
       \<lparr>tmDedup := \<lparr>tmTimers = [0 \<mapsto> \<lparr>tmDur = keyTime, tmData = DataDsKey exampleKey,
                                         tmCb = CbDeDupKey, tmStarted = True\<rparr>],
                    tmNext = 1\<rparr>,
        deDupKeyMap := [exampleKey \<mapsto> Some 0]\<rparr>"

definition exampleRx :: "int \<Rightarrow> byte \<Rightarrow> P2pPackageRx" where
  "exampleRx mid st =
     \<lparr>rx_PeerInfo = \<lparr>pi_Snid = [0, 0], pi_Dir = 0, pi_NodeId = [1]\<rparr>,
      rx_ProtoId = 3, rx_MsgId = mid, rx_Key = [170], rx_PayloadLength = 1, rx_Payload = [st]\<rparr>"

definition exampleTwoPeers :: "bool \<Rightarrow> ShellManager" where
  "exampleTwoPeers dd =
     exampleShell dd [examplePeerID 1 \<mapsto> examplePeer 1 2 pisActive [],
                      examplePeerID 2 \<mapsto> examplePeer 2 2 pisActive []]"

definition exampleClosing :: "bool \<Rightarrow> ShellManager" where
  "exampleClosing dd =
     fst (peerAskToCloseInd (exampleTwoPeers dd)
            \<lparr>ind_Snid = [0, 0], ind_PeerId = [2], ind_Dir = 0\<rparr>)"

definition exampleConst :: schconst where
  "exampleConst =
     \<lparr>schTaskNodePoolSize = 4, schMaxTaskTimer = 16, SchCreatedGo = 0, SchCreatedSuspend = 1\<rparr>"

definition exampleTask :: "string \<Rightarrow> SchTaskDescription" where
  "exampleTask n =
     \<lparr>td_Name = n, td_MbSize = 8, td_Ep = Some 0,
      td_Wd = Some \<lparr>HaveDog = False, Inited = False, Cycle = 0, BiteCounter = 0, DieThreshold = 0\<rparr>,
      td_Flag = 1, td_DieCb = None, td_UserDa = None\<rparr>"

text \<open>The scheduler as a call of \<open>schCreateTask\<close> leaves it, and what the call returns.\<close>

definition createdState :: "schconst \<Rightarrow> scheduler \<Rightarrow> SchTaskDescription \<Rightarrow> scheduler" where
  "createdState K sdl td =
     (case schCreateTask K sdl (Some td) of Inl pn \<Rightarrow> sdl | Inr (sdl', eno, ptn) \<Rightarrow> sdl')"

definition createdResult ::
  "schconst \<Rightarrow> scheduler \<Rightarrow> SchTaskDescription \<Rightarrow> gopanic + (SchErrno \<times> nat option)" where
  "createdResult K sdl td =
     (case schCreateTask K sdl (Some td) of
        Inl pn \<Rightarrow> Inl pn
      | Inr (sdl', eno, ptn) \<Rightarrow> Inr (eno, ptn))"

definition exampleOneTask :: scheduler where
  "exampleOneTask = createdState exampleConst (schSchedulerInit exampleConst) (exampleTask ''a'')"

definition exampleDuplicate :: scheduler where
  "exampleDuplicate = createdState exampleConst exampleOneTask (exampleTask ''a'')"

section \<open>Properties of the chain shell\<close>

lemmas example_defs =
  exampleExtern_def examplePeerID_def examplePeer_def exampleStat_def exampleShell_def
  exampleReq_def examplePkg_def exampleKey_def examplePending_def exampleKnown_def
  exampleRx_def

lemma replicate_numeral_unfold: "replicate (numeral n) x = x # replicate (pred_numeral n) x"
  by (simp add: numeral_eq_Suc)

subsection \<open>No send blocks\<close>

lemma send2Peer_returns: "send2Peer E spi req \<noteq> None"
  by (simp add: send2Peer_def chanSend_def bcr2Package_def)

lemma checkKey2Peer_returns: "checkKey2Peer E spi ddk \<noteq> None"
  by (simp add: checkKey2Peer_def chanSend_def split: option.split)

lemma reportKey2Peer_returns: "reportKey2Peer E spi k st \<noteq> None"
  by (simp add: reportKey2Peer_def chanSend_def split: option.split)

lemma checkKey_returns: "checkKey E s pe pid req \<noteq> None"
  by (simp del: not_None_eq add: checkKey_def Let_def checkKey2Peer_returns split: option.split prod.split)

lemma bcrPeers_returns: "bcrPeers E req ids s c \<noteq> None"
proof (induction ids arbitrary: s c)
  case Nil
  show ?case by simp
next
  case (Cons pid ids)
  show ?case
    by (simp del: not_None_eq add: Cons.IH send2Peer_returns checkKey_returns split: option.split prod.split)
qed

lemma broadcastReq_returns: "broadcastReq E ids s req \<noteq> None"
  by (simp del: not_None_eq add: broadcastReq_def Let_def bcrPeers_returns split: option.split prod.split)

lemma checkKey_frame:
  assumes "checkKey E s pe pid req = Some (s', eno)" and "q \<noteq> pid"
  shows "peerActived s' q = peerActived s q"
  using assms
  by (auto simp: checkKey_def Let_def split: option.splits prod.splits if_splits)

lemma GetTimer_ok:
  assumes "GetTimerEno E mgr d = TmEnoNone"
  shows "GetTimer E mgr d dat cb =
           (mgr\<lparr>tmTimers := (tmTimers mgr)(tmNext mgr \<mapsto>
                    \<lparr>tmDur = d, tmData = dat, tmCb = cb, tmStarted = False\<rparr>),
                tmNext := Suc (tmNext mgr)\<rparr>,
            Some (tmNext mgr), TmEnoNone)"
  using assms by (simp add: GetTimer_def)

lemma GetTimer_err:
  assumes "GetTimerEno E mgr d \<noteq> TmEnoNone"
  shows "\<exists>e. GetTimer E mgr d dat cb = (mgr, None, TmEnoOther e)"
  using assms by (cases "GetTimerEno E mgr d") (simp_all add: GetTimer_def)

lemma StartTimer_timer:
  assumes "tmTimers mgr h = Some t"
  shows "\<exists>t'. tmTimers (fst (StartTimer E mgr (Some h))) h = Some t'
             \<and> tmDur t' = tmDur t \<and> tmData t' = tmData t \<and> tmCb t' = tmCb t
             \<and> (tmStarted t' = (StartTimerEno E mgr h = TmEnoNone \<or> tmStarted t))"
  using assms by (cases "StartTimerEno E mgr h") (auto simp: StartTimer_def)

subsection \<open>Backpressure on a full tx channel\<close>

text \<open>
  Claim C5. A send to a peer whose tx channel holds at least as many frames as its
  capacity discards the frame: \<open>send2Peer\<close> (payload) and \<open>checkKey2Peer\<close> (CHKK)
  leave the channel as it is, add one to the peer's \<open>txDiscrd\<close> and return
  \<open>SchEnoResource\<close>. In the shell, the CHKK path (\<open>checkKey\<close>) and the direct payload
  path of the broadcast loop change the entry of that peer only. No send ever blocks,
  whatever the channel holds.
\<close>

theorem tx_full_discards:
  assumes full: "cap (txChan spi) \<le> chanLen (txChan spi)"
    and peer: "peerActived s pid = Some spi"
    and fresh: "deDupMap s \<lparr>key = copyKey E (req_Key req), peer = pid\<rparr> = None"
  shows "send2Peer E spi req = Some (spi\<lparr>txDiscrd := txDiscrd spi + 1\<rparr>, SchEnoResource)
       \<and> checkKey2Peer E spi ddk
           = Some (spi\<lparr>txDiscrd := txDiscrd spi + 1\<rparr>, Some (ErrSchErrno SchEnoResource))
       \<and> checkKey E s pe pid req
           = Some (s\<lparr>peerActived := (peerActived s)(pid \<mapsto> spi\<lparr>txDiscrd := txDiscrd spi + 1\<rparr>)\<rparr>,
                   SchEnoUserTask)
       \<and> (deDup s = False \<and> status spi = pisActive \<and> Exclude req = None \<longrightarrow>
            bcrPeers E req [pid] s c
              = Some (s\<lparr>peerActived := (peerActived s)(pid \<mapsto> spi\<lparr>txDiscrd := txDiscrd spi + 1\<rparr>)\<rparr>,
                      c\<lparr>sendFailed := sendFailed c + 1\<rparr>))
       \<and> (\<forall>x r. send2Peer E x r \<noteq> None)
       \<and> (\<forall>x d. checkKey2Peer E x d \<noteq> None)"
proof -
  have a: "send2Peer E spi req = Some (spi\<lparr>txDiscrd := txDiscrd spi + 1\<rparr>, SchEnoResource)"
    using full by (simp add: send2Peer_def)
  have b: "checkKey2Peer E spi d
           = Some (spi\<lparr>txDiscrd := txDiscrd spi + 1\<rparr>, Some (ErrSchErrno SchEnoResource))" for d
    using full by (simp add: checkKey2Peer_def)
  have c: "checkKey E s pe pid req
           = Some (s\<lparr>peerActived := (peerActived s)(pid \<mapsto> spi\<lparr>txDiscrd := txDiscrd spi + 1\<rparr>)\<rparr>,
                   SchEnoUserTask)"
    using peer fresh by (simp add: checkKey_def b)
  have d: "bcrPeers E req [pid] s c
              = Some (s\<lparr>peerActived := (peerActived s)(pid \<mapsto> spi\<lparr>txDiscrd := txDiscrd spi + 1\<rparr>)\<rparr>,
                      c\<lparr>sendFailed := sendFailed c + 1\<rparr>)"
    if "deDup s = False" "status spi = pisActive" "Exclude req = None"
    using that peer by (simp add: a)
  show ?thesis
    using a b c d send2Peer_returns checkKey2Peer_returns by blast
qed

theorem tx_full_discards_witness:
  "cap (txChan (examplePeer 1 1 pisActive [examplePkg]))
     \<le> chanLen (txChan (examplePeer 1 1 pisActive [examplePkg]))
   \<and> send2Peer exampleExtern (examplePeer 1 1 pisActive [examplePkg]) exampleReq
       = Some ((examplePeer 1 1 pisActive [examplePkg])\<lparr>txDiscrd := 1\<rparr>, SchEnoResource)
   \<and> checkKey2Peer exampleExtern (examplePeer 1 1 pisActive [examplePkg])
        \<lparr>key = exampleKey, peer = examplePeerID 1\<rparr>
       = Some ((examplePeer 1 1 pisActive [examplePkg])\<lparr>txDiscrd := 1\<rparr>,
               Some (ErrSchErrno SchEnoResource))
   \<and> checkKey exampleExtern
        (exampleShell False [examplePeerID 1 \<mapsto> examplePeer 1 1 pisActive [examplePkg]])
        (examplePeer 1 1 pisActive [examplePkg]) (examplePeerID 1) exampleReq
       = Some ((exampleShell False [examplePeerID 1 \<mapsto> examplePeer 1 1 pisActive [examplePkg]])
                 \<lparr>peerActived := [examplePeerID 1 \<mapsto> (examplePeer 1 1 pisActive [examplePkg])\<lparr>txDiscrd := 1\<rparr>]\<rparr>,
               SchEnoUserTask)
   \<and> bcrPeers exampleExtern exampleReq [examplePeerID 1]
        (exampleShell False [examplePeerID 1 \<mapsto> examplePeer 1 1 pisActive [examplePkg]]) bcrLocal0
       = Some ((exampleShell False [examplePeerID 1 \<mapsto> examplePeer 1 1 pisActive [examplePkg]])
                 \<lparr>peerActived := [examplePeerID 1 \<mapsto> (examplePeer 1 1 pisActive [examplePkg])\<lparr>txDiscrd := 1\<rparr>]\<rparr>,
               bcrLocal0\<lparr>sendFailed := 1\<rparr>)"
  using tx_full_discards [of "examplePeer 1 1 pisActive [examplePkg]"
      "exampleShell False [examplePeerID 1 \<mapsto> examplePeer 1 1 pisActive [examplePkg]]"
      "examplePeerID 1" exampleExtern exampleReq
      "\<lparr>key = exampleKey, peer = examplePeerID 1\<rparr>" "examplePeer 1 1 pisActive [examplePkg]"
      bcrLocal0]
  by (simp add: examplePeer_def exampleShell_def exampleReq_def chanLen_def bcrLocal0_def)

subsection \<open>The known-key map\<close>

text \<open>
  Claim C9. In \<open>setKeyMap\<close>, once the key is new and \<open>GetTimer\<close> has returned
  success, the result is \<open>SKM_OK\<close> and never \<open>SKM_FAILED\<close>, and the key is stored in
  the known-key map with the timer handle, whatever \<open>StartTimer\<close> reports: the test
  after \<open>StartTimer\<close> reads the error of \<open>GetTimer\<close>.
\<close>

theorem setKeyMap_ignores_StartTimer:
  assumes fresh: "deDupKeyMap s k = None"
    and got: "GetTimerEno E (tmDedup s) keyTime = TmEnoNone"
  shows "snd (setKeyMap E s k) = SKM_OK
       \<and> snd (setKeyMap E s k) \<noteq> SKM_FAILED
       \<and> deDupKeyMap (fst (setKeyMap E s k)) k = Some (Some (tmNext (tmDedup s)))"
  using fresh got
  by (simp add: setKeyMap_def GetTimer_ok Let_def SKM_OK_def SKM_FAILED_def)

theorem setKeyMap_ignores_StartTimer_witness:
  "deDupKeyMap (exampleShell True Map.empty) [170, 0, 0, 0] = None
   \<and> GetTimerEno failingStart (tmDedup (exampleShell True Map.empty)) keyTime = TmEnoNone
   \<and> snd (StartTimer failingStart
            (SetTimerData (fst (GetTimer failingStart (tmDedup (exampleShell True Map.empty))
                                  keyTime DataNil CbDeDupKey))
                          (Some 0) (DataDsKey [170, 0, 0, 0]))
            (Some 0)) = TmEnoOther 1
   \<and> snd (setKeyMap failingStart (exampleShell True Map.empty) [170, 0, 0, 0]) = SKM_OK
   \<and> deDupKeyMap (fst (setKeyMap failingStart (exampleShell True Map.empty) [170, 0, 0, 0]))
        [170, 0, 0, 0] = Some (Some 0)"
  using setKeyMap_ignores_StartTimer [of "exampleShell True Map.empty" "[170, 0, 0, 0]" failingStart]
  by (simp add: failingStart_def exampleExtern_def exampleShell_def GetTimer_def SetTimerData_def
                StartTimer_def)

text \<open>
  Claim C4. After a successful \<open>setKeyMap\<close> of a key, \<open>checkKeyMap\<close> of that key
  returns \<open>SKM_DUPLICATED\<close>; the key's entry holds a timer of duration \<open>keyTime\<close> whose
  callback is \<open>deDupKeyCb\<close> and whose data is the key; once that timer has fired (the
  callback has run with the key), \<open>checkKeyMap\<close> returns \<open>SKM_OK\<close> again.
\<close>

theorem key_known_until_timer_fires:
  assumes ok: "setKeyMap E s k = (s', SKM_OK)"
  shows "checkKeyMap s' k = SKM_DUPLICATED
       \<and> (\<exists>h t. deDupKeyMap s' k = Some (Some h)
                \<and> tmTimers (tmDedup s') h = Some t
                \<and> tmDur t = keyTime \<and> tmCb t = CbDeDupKey \<and> tmData t = DataDsKey k
                \<and> (tmStarted t \<longrightarrow> checkKeyMap (timerExpired s' h) k = SKM_OK))
       \<and> checkKeyMap (fst (deDupKeyCb s' (DataDsKey k))) k = SKM_OK"
proof -
  have fresh: "deDupKeyMap s k = None"
    using ok by (auto simp: setKeyMap_def SKM_OK_def SKM_DUPLICATED_def split: if_splits)
  have got: "GetTimerEno E (tmDedup s) keyTime = TmEnoNone"
  proof (rule ccontr)
    assume "GetTimerEno E (tmDedup s) keyTime \<noteq> TmEnoNone"
    then obtain e where "GetTimer E (tmDedup s) keyTime DataNil CbDeDupKey = (tmDedup s, None, TmEnoOther e)"
      using GetTimer_err by blast
    then show False
      using ok fresh by (simp add: setKeyMap_def SKM_OK_def SKM_FAILED_def)
  qed
  define h where "h = tmNext (tmDedup s)"
  define mgr1 where "mgr1 = (tmDedup s)\<lparr>tmTimers := (tmTimers (tmDedup s))(h \<mapsto>
                    \<lparr>tmDur = keyTime, tmData = DataNil, tmCb = CbDeDupKey, tmStarted = False\<rparr>),
                tmNext := Suc h\<rparr>"
  define mgr2 where "mgr2 = SetTimerData mgr1 (Some h) (DataDsKey k)"
  have s': "s' = s\<lparr>tmDedup := fst (StartTimer E mgr2 (Some h)),
                  deDupKeyMap := (deDupKeyMap s)(k \<mapsto> Some h)\<rparr>"
    using ok fresh got
    by (simp add: setKeyMap_def GetTimer_ok Let_def h_def mgr1_def mgr2_def)
  have t2: "tmTimers mgr2 h = Some \<lparr>tmDur = keyTime, tmData = DataDsKey k, tmCb = CbDeDupKey, tmStarted = False\<rparr>"
    by (simp add: mgr2_def mgr1_def SetTimerData_def)
  obtain t where t: "tmTimers (tmDedup s') h = Some t" "tmDur t = keyTime" "tmData t = DataDsKey k"
      "tmCb t = CbDeDupKey"
    using StartTimer_timer [OF t2, of E] s' by auto
  have dup: "checkKeyMap s' k = SKM_DUPLICATED"
    by (simp add: s' checkKeyMap_def)
  have fire: "checkKeyMap (timerExpired s' h) k = SKM_OK" if "tmStarted t"
    using that t by (simp add: timerExpired_def deDupKeyCb_def checkKeyMap_def)
  have cb: "checkKeyMap (fst (deDupKeyCb s' (DataDsKey k))) k = SKM_OK"
    by (simp add: deDupKeyCb_def checkKeyMap_def)
  have km: "deDupKeyMap s' k = Some (Some h)"
    by (simp add: s')
  show ?thesis
    using dup km t fire cb by blast
qed

theorem key_known_until_timer_fires_witness:
  "setKeyMap exampleExtern (exampleShell True Map.empty) [170, 0, 0, 0]
     = (fst (setKeyMap exampleExtern (exampleShell True Map.empty) [170, 0, 0, 0]), SKM_OK)
   \<and> checkKeyMap (fst (setKeyMap exampleExtern (exampleShell True Map.empty) [170, 0, 0, 0]))
        [170, 0, 0, 0] = SKM_DUPLICATED
   \<and> map_option tmStarted
        (tmTimers (tmDedup (fst (setKeyMap exampleExtern (exampleShell True Map.empty) [170, 0, 0, 0]))) 0)
       = Some True
   \<and> checkKeyMap
        (timerExpired (fst (setKeyMap exampleExtern (exampleShell True Map.empty) [170, 0, 0, 0])) 0)
        [170, 0, 0, 0] = SKM_OK"
proof -
  have ok: "setKeyMap exampleExtern (exampleShell True Map.empty) [170, 0, 0, 0]
     = (fst (setKeyMap exampleExtern (exampleShell True Map.empty) [170, 0, 0, 0]), SKM_OK)"
    by (simp add: setKeyMap_def exampleExtern_def exampleShell_def GetTimer_def Let_def)
  have st: "map_option tmStarted
        (tmTimers (tmDedup (fst (setKeyMap exampleExtern (exampleShell True Map.empty) [170, 0, 0, 0]))) 0)
       = Some True"
    by (simp add: setKeyMap_def exampleExtern_def exampleShell_def GetTimer_def Let_def
                  SetTimerData_def StartTimer_def)
  have km: "deDupKeyMap (fst (setKeyMap exampleExtern (exampleShell True Map.empty) [170, 0, 0, 0]))
        [170, 0, 0, 0] = Some (Some 0)"
    by (simp add: setKeyMap_def exampleExtern_def exampleShell_def GetTimer_def Let_def)
  show ?thesis
    using key_known_until_timer_fires [OF ok] ok st km by auto
qed

text \<open>
  Nothing but the expiry of a timer that carries the key removes a key from the known-key
  map: broadcasts, frames from peers and the expiry of timers with other data keep it.
\<close>

lemma setKeyMap_keeps_known:
  assumes "deDupKeyMap s k = Some v"
  shows "deDupKeyMap (fst (setKeyMap E s k')) k = Some v"
  using assms by (auto simp: setKeyMap_def Let_def split: prod.split)

lemma checkKey_keeps_known:
  assumes "checkKey E s pe pid req = Some (s', eno)"
  shows "deDupKeyMap s' = deDupKeyMap s"
  using assms
  by (auto simp: checkKey_def Let_def split: option.splits prod.splits if_splits)

lemma bcrPeers_keeps_known:
  assumes "bcrPeers E req ids s c = Some (s', c')"
  shows "deDupKeyMap s' = deDupKeyMap s"
  using assms
proof (induction ids arbitrary: s c)
  case Nil
  then show ?case by simp
next
  case (Cons pid ids)
  show ?case
  proof (cases "peerActived s pid")
    case None
    then show ?thesis
      using Cons.prems Cons.IH [of s c] by simp
  next
    case (Some q)
    show ?thesis
    proof (cases "deDup s = False")
      case True
      obtain q' eno where snd: "send2Peer E q req = Some (q', eno)"
        using send2Peer_returns [of E q req] by auto
      show ?thesis
        using Cons.prems Some True snd
        by (auto split: if_splits dest!: Cons.IH)
    next
      case False
      obtain s1 eno where ck: "checkKey E s q pid req = Some (s1, eno)"
        using checkKey_returns [of E s q pid req] by auto
      show ?thesis
        using Cons.prems Some False ck checkKey_keeps_known [OF ck]
        by (auto split: if_splits dest!: Cons.IH)
    qed
  qed
qed

lemma broadcastReq_keeps_known:
  assumes run: "broadcastReq E ids s req = Some (s', eno)"
    and known: "deDupKeyMap s k = Some v"
  shows "deDupKeyMap s' k = Some v"
proof -
  have k1: "deDupKeyMap (fst (setKeyMap E s k')) k = Some v" for k'
    using known by (rule setKeyMap_keeps_known)
  show ?thesis
    using run known k1 [of "copyKey E (req_Key req)"]
    by (auto simp: broadcastReq_def Let_def split: if_splits prod.splits option.splits
             dest!: bcrPeers_keeps_known)
qed

lemma frames_keep_known:
  "checkKeyFromPeer E s rxPkg = Some (s', eno) \<Longrightarrow> deDupKeyMap s' = deDupKeyMap s"
  "reportKeyFromPeer E s rxPkg = Some (s', eno) \<Longrightarrow> deDupKeyMap s' = deDupKeyMap s"
  by (auto simp: checkKeyFromPeer_def reportKeyFromPeer_def Let_def
           split: option.splits prod.splits if_splits)

lemma other_timer_keeps_known:
  assumes "deDupKeyMap s k = Some v"
    and "case tmTimers (tmDedup s) h of None \<Rightarrow> True | Some t \<Rightarrow> tmData t \<noteq> DataDsKey k"
  shows "deDupKeyMap (timerExpired s h) k = Some v"
  using assms
  by (auto simp: timerExpired_def deDupKeyCb_def deDupTimerCb_def Let_def
           split: option.splits TimerCallback.splits TimerData.splits)

subsection \<open>Broadcast of a key that is already known\<close>

text \<open>
  Claim C1, as the code has it. For a broadcast request of type Event, Tx, BlockHeader or
  Block with deduplication enabled, if the content key is already in the known-key map,
  \<open>broadcastReq\<close> returns the failure status \<open>SchEnoUserTask\<close> (not
  \<open>SchEnoDuplicated\<close>) and leaves the peers, their tx channels, both deduplication
  maps and the timers as they are; only the broadcast statistics are updated.
\<close>

theorem duplicate_broadcast_rejected:
  assumes mt: "MsgType req = MSBR_MT_EV E \<or> MsgType req = MSBR_MT_TX E
             \<or> MsgType req = MSBR_MT_BLKH E \<or> MsgType req = MSBR_MT_BLK E"
    and dd: "deDup s"
    and known: "deDupKeyMap s (copyKey E (req_Key req)) \<noteq> None"
  shows "broadcastReq E ids s req
           = Some (s\<lparr>bcrStat := doStat E (MsgType req) (bcrLocal0\<lparr>skmFailed := 1\<rparr>) (bcrStat s)\<rparr>,
                   SchEnoUserTask)"
  using mt dd known
  by (simp add: broadcastReq_def setKeyMap_def Let_def)

theorem duplicate_broadcast_rejected_witness:
  "MsgType exampleReq = MSBR_MT_EV exampleExtern
   \<and> deDup exampleKnown
   \<and> deDupKeyMap exampleKnown (copyKey exampleExtern (req_Key exampleReq)) \<noteq> None
   \<and> broadcastReq exampleExtern [examplePeerID 1] exampleKnown exampleReq
       = Some (exampleKnown\<lparr>bcrStat := exampleStat\<lparr>bcrCount := 1, bcrEvCount := 1,
                                                      bcrSkmFailed := 1, bcrSkmOk := 1\<rparr>\<rparr>,
               SchEnoUserTask)"
proof -
  have mt: "MsgType exampleReq = MSBR_MT_EV exampleExtern"
    by (simp add: example_defs)
  have dd: "deDup exampleKnown"
    by (simp add: example_defs)
  have known: "deDupKeyMap exampleKnown (copyKey exampleExtern (req_Key exampleReq)) \<noteq> None"
    by (simp add: example_defs copyKey_def replicate_numeral_unfold)
  have st: "doStat exampleExtern (MsgType exampleReq) (bcrLocal0\<lparr>skmFailed := 1\<rparr>) (bcrStat exampleKnown)
            = exampleStat\<lparr>bcrCount := 1, bcrEvCount := 1, bcrSkmFailed := 1, bcrSkmOk := 1\<rparr>"
    by (simp add: example_defs doStat_def bcrLocal0_def)
  show ?thesis
    using duplicate_broadcast_rejected [OF disjI1 [OF mt] dd known, of "[examplePeerID 1]"] mt dd known st
    by simp
qed

text \<open>
  The claim as stated, a \<open>Duplicated\<close> status returned to the caller, fails: the status
  returned for a known key is \<open>SchEnoUserTask\<close>.
\<close>

theorem duplicate_broadcast_counterexample:
  "deDup exampleKnown
   \<and> MsgType exampleReq = MSBR_MT_EV exampleExtern
   \<and> deDupKeyMap exampleKnown (copyKey exampleExtern (req_Key exampleReq)) \<noteq> None
   \<and> map_option snd (broadcastReq exampleExtern [examplePeerID 1] exampleKnown exampleReq)
       = Some SchEnoUserTask
   \<and> map_option snd (broadcastReq exampleExtern [examplePeerID 1] exampleKnown exampleReq)
       \<noteq> Some SchEnoDuplicated"
  by (simp add: example_defs broadcastReq_def setKeyMap_def SKM_DUPLICATED_def copyKey_def
                replicate_numeral_unfold Let_def)

subsection \<open>A report from a peer that is not active\<close>

text \<open>
  Claim C7, as the code has it. An RPTK frame whose sending peer is absent from the peer
  table or not active is answered with \<open>SchEnoNotFound\<close> and changes nothing: the
  pending entry for that key and peer stays in the pending-negotiation map, with its
  timer.
\<close>

theorem report_from_inactive_peer:
  assumes dec: "GetExtMessage E (rx2Package rxPkg) = Some msg"
    and mid: "em_Mid msg = word_of_int (MID_RPTK E)"
    and gone: "case peerActived s (rxPeerID rxPkg) of
                 None \<Rightarrow> True
               | Some pai \<Rightarrow> status pai \<noteq> pisActive"
  shows "reportKeyFromPeer E s rxPkg = Some (s, SchEnoNotFound)"
proof (cases "peerActived s (rxPeerID rxPkg)")
  case None
  then show ?thesis
    using dec mid by (simp add: reportKeyFromPeer_def Let_def)
next
  case (Some pai)
  then show ?thesis
    using dec mid gone by (simp add: reportKeyFromPeer_def Let_def)
qed

theorem report_from_inactive_peer_witness:
  "GetExtMessage exampleExtern (rx2Package (exampleRx 5 0))
     = Some \<lparr>em_Mid = 5, em_Chkk = \<lparr>chkk_Key = [170]\<rparr>,
             em_Rptk = \<lparr>rptk_Key = [170], rptk_Status = 0\<rparr>\<rparr>
   \<and> map_option status (peerActived (examplePending pisClosing 2 []) (rxPeerID (exampleRx 5 0)))
       = Some pisClosing
   \<and> reportKeyFromPeer exampleExtern (examplePending pisClosing 2 []) (exampleRx 5 0)
       = Some (examplePending pisClosing 2 [], SchEnoNotFound)
   \<and> reportKeyFromPeer exampleExtern (exampleShell True Map.empty) (exampleRx 5 0)
       = Some (exampleShell True Map.empty, SchEnoNotFound)"
proof -
  have dec: "GetExtMessage exampleExtern (rx2Package (exampleRx 5 0))
     = Some \<lparr>em_Mid = 5, em_Chkk = \<lparr>chkk_Key = [170]\<rparr>,
             em_Rptk = \<lparr>rptk_Key = [170], rptk_Status = 0\<rparr>\<rparr>"
    by (simp add: example_defs rx2Package_def)
  have mid: "em_Mid \<lparr>em_Mid = 5, em_Chkk = \<lparr>chkk_Key = [170]\<rparr>,
             em_Rptk = \<lparr>rptk_Key = [170], rptk_Status = 0\<rparr>\<rparr> = word_of_int (MID_RPTK exampleExtern)"
    by (simp add: example_defs)
  have st: "map_option status (peerActived (examplePending pisClosing 2 []) (rxPeerID (exampleRx 5 0)))
       = Some pisClosing"
    by (simp add: example_defs rxPeerID_def)
  have g1: "case peerActived (examplePending pisClosing 2 []) (rxPeerID (exampleRx 5 0)) of
                 None \<Rightarrow> True
               | Some pai \<Rightarrow> status pai \<noteq> pisActive"
    by (simp add: example_defs rxPeerID_def pisClosing_def pisActive_def)
  have g2: "case peerActived (exampleShell True Map.empty) (rxPeerID (exampleRx 5 0)) of
                 None \<Rightarrow> True
               | Some pai \<Rightarrow> status pai \<noteq> pisActive"
    by (simp add: example_defs)
  show ?thesis
    using report_from_inactive_peer [OF dec mid g1] report_from_inactive_peer [OF dec mid g2] dec st
    by simp
qed

text \<open>
  The claim as stated, the pending entry cleared, fails: after the frame of a closing peer
  the entry is still in the map.
\<close>

theorem report_from_inactive_peer_counterexample:
  "GetExtMessage exampleExtern (rx2Package (exampleRx 5 0)) \<noteq> None
   \<and> em_Mid (the (GetExtMessage exampleExtern (rx2Package (exampleRx 5 0))))
       = word_of_int (MID_RPTK exampleExtern)
   \<and> map_option status (peerActived (examplePending pisClosing 2 []) (rxPeerID (exampleRx 5 0)))
       = Some pisClosing
   \<and> map_option snd (reportKeyFromPeer exampleExtern (examplePending pisClosing 2 []) (exampleRx 5 0))
       = Some SchEnoNotFound
   \<and> deDupMap (fst (the (reportKeyFromPeer exampleExtern (examplePending pisClosing 2 []) (exampleRx 5 0))))
        \<lparr>key = copyKey exampleExtern (rx_Key (exampleRx 5 0)), peer = rxPeerID (exampleRx 5 0)\<rparr>
       = Some \<lparr>bcReq = exampleReq, timer = Some 0\<rparr>"
  by (simp add: example_defs reportKeyFromPeer_def rx2Package_def rxPeerID_def Let_def
                pisClosing_def pisActive_def copyKey_def replicate_numeral_unfold)

subsection \<open>The broadcast loop and peers that are not active\<close>

lemma setKeyMap_peers: "peerActived (fst (setKeyMap E s k)) = peerActived s"
  by (simp add: setKeyMap_def Let_def split: prod.split)

lemma bcrPeers_keeps_inactive:
  assumes "bcrPeers E req ids s c = Some (s', c')"
    and "peerActived s p = Some pe"
    and "status pe \<noteq> pisActive"
  shows "peerActived s' p = Some pe"
  using assms
proof (induction ids arbitrary: s c)
  case Nil
  then show ?case by simp
next
  case (Cons pid ids)
  show ?case
  proof (cases "peerActived s pid")
    case None
    then show ?thesis
      using Cons.prems Cons.IH [of s c] by simp
  next
    case (Some q)
    show ?thesis
    proof (cases "status q \<noteq> pisActive")
      case True
      then show ?thesis
        using Some Cons.prems Cons.IH [of s "c\<lparr>unactive := unactive c + 1\<rparr>"] by simp
    next
      case active: False
      then have ne: "pid \<noteq> p"
        using Some Cons.prems(2,3) by auto
      show ?thesis
      proof (cases "case Exclude req of None \<Rightarrow> True | Some ex \<Rightarrow> nodeId pid \<noteq> ex")
        case False
        then show ?thesis
          using Some active Cons.prems Cons.IH [of s "c\<lparr>exclude := exclude c + 1\<rparr>"] by simp
      next
        case True
        show ?thesis
        proof (cases "deDup s = False")
          case direct: True
          obtain q' eno where snd: "send2Peer E q req = Some (q', eno)"
            using send2Peer_returns [of E q req] by auto
          define s1 where "s1 = s\<lparr>peerActived := (peerActived s)(pid \<mapsto> q')\<rparr>"
          define c1 where "c1 = (if eno = SchEnoNone then c\<lparr>sendOk := sendOk c + 1\<rparr>
                                 else c\<lparr>sendFailed := sendFailed c + 1\<rparr>)"
          have run: "bcrPeers E req ids s1 c1 = Some (s', c')"
            using Cons.prems(1) Some active True direct snd by (simp add: s1_def c1_def)
          have "peerActived s1 p = Some pe"
            using ne Cons.prems(2) by (simp add: s1_def)
          then show ?thesis
            using Cons.IH [OF run _ Cons.prems(3)] by simp
        next
          case dedup: False
          obtain s1 eno where ck: "checkKey E s q pid req = Some (s1, eno)"
            using checkKey_returns [of E s q pid req] by auto
          define c1 where "c1 = (if eno = SchEnoNone then c\<lparr>chkkOk := chkkOk c + 1\<rparr>
                                 else c\<lparr>chkkFailed := chkkFailed c + 1\<rparr>)"
          have run: "bcrPeers E req ids s1 c1 = Some (s', c')"
            using Cons.prems(1) Some active True dedup ck by (simp add: c1_def)
          have "peerActived s1 p = Some pe"
            using checkKey_frame [OF ck, of p] ne Cons.prems(2) by simp
          then show ?thesis
            using Cons.IH [OF run _ Cons.prems(3)] by simp
        qed
      qed
    qed
  qed
qed

lemma broadcastReq_keeps_inactive:
  assumes run: "broadcastReq E ids s req = Some (s', eno)"
    and p: "peerActived s p = Some pe"
    and st: "status pe \<noteq> pisActive"
  shows "peerActived s' p = Some pe"
proof (cases "MsgType req = MSBR_MT_EV E \<or> MsgType req = MSBR_MT_TX E
              \<or> MsgType req = MSBR_MT_BLKH E \<or> MsgType req = MSBR_MT_BLK E")
  case False
  then have "s' = s\<lparr>bcrStat := doStat E (MsgType req) bcrLocal0 (bcrStat s)\<rparr>"
    using run by (simp add: broadcastReq_def Let_def)
  then show ?thesis
    using p by simp
next
  case mt: True
  define k where "k = copyKey E (req_Key req)"
  show ?thesis
  proof (cases "deDup s")
    case False
    obtain s2 c where loop: "bcrPeers E req ids s bcrLocal0 = Some (s2, c)"
      using bcrPeers_returns [of E req ids s bcrLocal0] by auto
    have "s' = s2\<lparr>bcrStat := doStat E (MsgType req) c (bcrStat s2)\<rparr>"
      using run mt False loop by (simp add: broadcastReq_def Let_def)
    then show ?thesis
      using bcrPeers_keeps_inactive [OF loop p st] by simp
  next
    case True
    obtain s1 skm where skm: "setKeyMap E s k = (s1, skm)"
      by (cases "setKeyMap E s k")
    have p1: "peerActived s1 p = Some pe"
      using setKeyMap_peers [of E s k] skm p by simp
    show ?thesis
    proof (cases "skm = SKM_DUPLICATED \<or> skm = SKM_FAILED")
      case True
      then have "s' = s1\<lparr>bcrStat := doStat E (MsgType req) (bcrLocal0\<lparr>skmFailed := 1\<rparr>) (bcrStat s1)\<rparr>"
        using run mt \<open>deDup s\<close> skm by (simp add: broadcastReq_def Let_def k_def)
      then show ?thesis
        using p1 by simp
    next
      case False
      obtain s2 c where loop: "bcrPeers E req ids s1 (bcrLocal0\<lparr>skmOk := 1\<rparr>) = Some (s2, c)"
        using bcrPeers_returns [of E req ids s1 "bcrLocal0\<lparr>skmOk := 1\<rparr>"] by auto
      have "s' = s2\<lparr>bcrStat := doStat E (MsgType req) c (bcrStat s2)\<rparr>"
        using run mt \<open>deDup s\<close> skm False loop by (simp add: broadcastReq_def Let_def k_def)
      then show ?thesis
        using bcrPeers_keeps_inactive [OF loop p1 st] by simp
    qed
  qed
qed

text \<open>
  Claim C6. Whatever the shell state, the request and the order in which the peer table is
  walked, \<open>broadcastReq\<close> returns, and every peer whose status is not active (a closing
  peer) is afterwards exactly as before: nothing is enqueued on its tx channel, on the
  direct path or on the CHKK path.
\<close>

theorem broadcast_skips_inactive_peers:
  "\<exists>s' eno. broadcastReq E ids s req = Some (s', eno)
     \<and> (\<forall>p pe. peerActived s p = Some pe \<and> status pe \<noteq> pisActive
                \<longrightarrow> peerActived s' p = Some pe)"
proof -
  obtain s' eno where run: "broadcastReq E ids s req = Some (s', eno)"
    using broadcastReq_returns [of E ids s req] by auto
  then show ?thesis
    using broadcastReq_keeps_inactive [OF run] by blast
qed

lemma exampleClosing_peers:
  "peerActived (exampleClosing dd)
     = [examplePeerID 1 \<mapsto> examplePeer 1 2 pisActive [],
        examplePeerID 2 \<mapsto> examplePeer 2 2 pisClosing []]"
  by (simp add: exampleClosing_def exampleTwoPeers_def exampleShell_def peerAskToCloseInd_def
                examplePeerID_def examplePeer_def Let_def)

theorem broadcast_skips_inactive_peers_witness:
  "peerActived (exampleClosing True) (examplePeerID 2) = Some (examplePeer 2 2 pisClosing [])
   \<and> status (examplePeer 2 2 pisClosing []) \<noteq> pisActive
   \<and> broadcastReq exampleExtern [examplePeerID 2, examplePeerID 1] (exampleClosing True) exampleReq
       \<noteq> None
   \<and> peerActived
        (fst (the (broadcastReq exampleExtern [examplePeerID 2, examplePeerID 1]
                     (exampleClosing True) exampleReq)))
        (examplePeerID 2)
       = Some (examplePeer 2 2 pisClosing [])
   \<and> broadcastReq exampleExtern [examplePeerID 2, examplePeerID 1] (exampleClosing False) exampleReq
       \<noteq> None
   \<and> peerActived
        (fst (the (broadcastReq exampleExtern [examplePeerID 2, examplePeerID 1]
                     (exampleClosing False) exampleReq)))
        (examplePeerID 2)
       = Some (examplePeer 2 2 pisClosing [])"
proof -
  have p: "peerActived (exampleClosing dd) (examplePeerID 2) = Some (examplePeer 2 2 pisClosing [])" for dd
    by (simp add: exampleClosing_peers)
  have st: "status (examplePeer 2 2 pisClosing []) \<noteq> pisActive"
    by (simp add: examplePeer_def pisClosing_def pisActive_def)
  show ?thesis
    using broadcast_skips_inactive_peers
            [of exampleExtern "[examplePeerID 2, examplePeerID 1]" "exampleClosing True" exampleReq]
          broadcast_skips_inactive_peers
            [of exampleExtern "[examplePeerID 2, examplePeerID 1]" "exampleClosing False" exampleReq]
          p st
    by auto
qed

lemma example_broadcast_reaches_active_peer:
  "map_option (buf \<circ> txChan)
     (peerActived
        (fst (the (broadcastReq exampleExtern [examplePeerID 2, examplePeerID 1]
                     (exampleClosing True) exampleReq)))
        (examplePeerID 1))
     = Some [\<lparr>Pid = 3, Mid = 4, pkg_Key = exampleKey, PayloadLength = 0, Payload = []\<rparr>]
   \<and> map_option (buf \<circ> txChan)
     (peerActived
        (fst (the (broadcastReq exampleExtern [examplePeerID 2, examplePeerID 1]
                     (exampleClosing False) exampleReq)))
        (examplePeerID 1))
     = Some [\<lparr>Pid = 3, Mid = 0, pkg_Key = [170], PayloadLength = 2, Payload = [104, 105]\<rparr>]"
  by code_simp

subsection \<open>A CHKK frame from an active peer\<close>

text \<open>
  Claim C3, as the code has it. For a CHKK frame carrying key k from a peer that is in the
  peer table with active status, the status to report is \<open>KS_EXIST\<close> if and only if k
  is in the known-key map when the CHKK is handled, and \<open>KS_NOTEXIST\<close> otherwise. If
  the peer's tx channel has room (and the RPTK frame can be encoded),
  \<open>checkKeyFromPeer\<close> appends exactly one frame to the peer's tx channel, the RPTK
  frame for k with that status, and changes nothing else. If the channel is full, no
  reply is enqueued: the peer's \<open>txDiscrd\<close> goes up by one and \<open>SchEnoUserTask\<close> is
  returned.
\<close>

theorem check_key_from_active_peer:
  assumes dec: "GetExtMessage E (rx2Package rxPkg) = Some msg"
    and mid: "em_Mid msg = word_of_int (MID_CHKK E)"
    and peer: "peerActived s (rxPeerID rxPkg) = Some pai"
    and act: "status pai = pisActive"
    and st: "st = (if copyKey E (rx_Key rxPkg) \<in> dom (deDupKeyMap s) then KS_EXIST else KS_NOTEXIST)"
    and enc: "pkgReportKey E (pi pai) \<lparr>rptk_Key = copyKey E (rx_Key rxPkg), rptk_Status = st\<rparr>
                = Some frame"
  shows "checkKeyFromPeer E s rxPkg
           = (if chanLen (txChan pai) < cap (txChan pai)
              then Some (s\<lparr>peerActived := (peerActived s)(rxPeerID rxPkg \<mapsto>
                           pai\<lparr>txChan := (txChan pai)\<lparr>buf := buf (txChan pai) @ [frame]\<rparr>\<rparr>)\<rparr>,
                         SchEnoNone)
              else Some (s\<lparr>peerActived := (peerActived s)(rxPeerID rxPkg \<mapsto>
                           pai\<lparr>txDiscrd := txDiscrd pai + 1\<rparr>)\<rparr>,
                         SchEnoUserTask))
       \<and> (st = KS_EXIST) = (copyKey E (rx_Key rxPkg) \<in> dom (deDupKeyMap s))"
proof -
  have rep: "reportKey2Peer E pai (copyKey E (rx_Key rxPkg)) st
               = (if chanLen (txChan pai) < cap (txChan pai)
                  then Some (pai\<lparr>txChan := (txChan pai)\<lparr>buf := buf (txChan pai) @ [frame]\<rparr>\<rparr>, None)
                  else Some (pai\<lparr>txDiscrd := txDiscrd pai + 1\<rparr>, Some (ErrSchErrno SchEnoResource)))"
    using enc by (simp add: reportKey2Peer_def chanSend_def)
  have run: "checkKeyFromPeer E s rxPkg
           = (if chanLen (txChan pai) < cap (txChan pai)
              then Some (s\<lparr>peerActived := (peerActived s)(rxPeerID rxPkg \<mapsto>
                           pai\<lparr>txChan := (txChan pai)\<lparr>buf := buf (txChan pai) @ [frame]\<rparr>\<rparr>)\<rparr>,
                         SchEnoNone)
              else Some (s\<lparr>peerActived := (peerActived s)(rxPeerID rxPkg \<mapsto>
                           pai\<lparr>txDiscrd := txDiscrd pai + 1\<rparr>)\<rparr>,
                         SchEnoUserTask))"
  proof (cases "deDupKeyMap s (copyKey E (rx_Key rxPkg)) = None")
    case True
    then have "st = KS_NOTEXIST"
      using st by (simp add: dom_def)
    then show ?thesis
      using dec mid peer act True rep by (simp add: checkKeyFromPeer_def Let_def)
  next
    case False
    then have "st = KS_EXIST"
      using st by (auto simp: dom_def)
    then show ?thesis
      using dec mid peer act False rep by (simp add: checkKeyFromPeer_def Let_def)
  qed
  have iff: "(st = KS_EXIST) = (copyKey E (rx_Key rxPkg) \<in> dom (deDupKeyMap s))"
    using st by (simp add: KS_EXIST_def KS_NOTEXIST_def)
  show ?thesis
    using run iff by simp
qed

lemma exampleRx_decodes:
  "GetExtMessage exampleExtern (rx2Package (exampleRx m b))
     = Some \<lparr>em_Mid = word_of_int m, em_Chkk = \<lparr>chkk_Key = [170]\<rparr>,
             em_Rptk = \<lparr>rptk_Key = [170], rptk_Status = ucast b\<rparr>\<rparr>"
  by (simp add: exampleExtern_def exampleRx_def rx2Package_def)

lemma exampleRx_key: "copyKey exampleExtern (rx_Key (exampleRx m b)) = exampleKey"
  by (simp add: exampleExtern_def exampleRx_def copyKey_def exampleKey_def replicate_numeral_unfold)

lemma exampleRx_peer: "rxPeerID (exampleRx m b) = examplePeerID 1"
  by (simp add: exampleRx_def rxPeerID_def examplePeerID_def)

theorem check_key_from_active_peer_witness:
  "peerActived exampleKnown (rxPeerID (exampleRx 4 0)) = Some (examplePeer 1 2 pisActive [])
   \<and> chanLen (txChan (examplePeer 1 2 pisActive [])) < cap (txChan (examplePeer 1 2 pisActive []))
   \<and> copyKey exampleExtern (rx_Key (exampleRx 4 0)) \<in> dom (deDupKeyMap exampleKnown)
   \<and> checkKeyFromPeer exampleExtern exampleKnown (exampleRx 4 0)
       = Some (exampleKnown\<lparr>peerActived := [examplePeerID 1 \<mapsto>
                  examplePeer 1 2 pisActive
                    [\<lparr>Pid = 3, Mid = 5, pkg_Key = exampleKey, PayloadLength = 1, Payload = [1]\<rparr>]]\<rparr>,
               SchEnoNone)
   \<and> copyKey exampleExtern (rx_Key (exampleRx 4 0))
       \<notin> dom (deDupKeyMap (exampleShell True [examplePeerID 1 \<mapsto> examplePeer 1 2 pisActive []]))
   \<and> checkKeyFromPeer exampleExtern
         (exampleShell True [examplePeerID 1 \<mapsto> examplePeer 1 2 pisActive []]) (exampleRx 4 0)
       = Some (exampleShell True [examplePeerID 1 \<mapsto>
                  examplePeer 1 2 pisActive
                    [\<lparr>Pid = 3, Mid = 5, pkg_Key = exampleKey, PayloadLength = 1, Payload = [0]\<rparr>]],
               SchEnoNone)"
proof -
  have mid: "em_Mid \<lparr>em_Mid = word_of_int 4, em_Chkk = \<lparr>chkk_Key = [170]\<rparr>,
             em_Rptk = \<lparr>rptk_Key = [170], rptk_Status = ucast (0 :: byte)\<rparr>\<rparr>
             = word_of_int (MID_CHKK exampleExtern)"
    by (simp add: exampleExtern_def)
  have act: "status (examplePeer 1 2 pisActive []) = pisActive"
    by (simp add: examplePeer_def)
  have room: "chanLen (txChan (examplePeer 1 2 pisActive [])) < cap (txChan (examplePeer 1 2 pisActive []))"
    by (simp add: examplePeer_def chanLen_def)
  have p1: "peerActived exampleKnown (rxPeerID (exampleRx 4 0)) = Some (examplePeer 1 2 pisActive [])"
    by (simp add: exampleRx_peer exampleKnown_def exampleShell_def)
  have k1: "copyKey exampleExtern (rx_Key (exampleRx 4 0)) \<in> dom (deDupKeyMap exampleKnown)"
    by (simp add: exampleRx_key exampleKnown_def)
  have e1: "pkgReportKey exampleExtern (pi (examplePeer 1 2 pisActive []))
              \<lparr>rptk_Key = copyKey exampleExtern (rx_Key (exampleRx 4 0)), rptk_Status = KS_EXIST\<rparr>
            = Some \<lparr>Pid = 3, Mid = 5, pkg_Key = exampleKey, PayloadLength = 1, Payload = [1]\<rparr>"
    by (simp add: exampleRx_key) (simp add: exampleExtern_def KS_EXIST_def)
  have p2: "peerActived (exampleShell True [examplePeerID 1 \<mapsto> examplePeer 1 2 pisActive []])
              (rxPeerID (exampleRx 4 0)) = Some (examplePeer 1 2 pisActive [])"
    by (simp add: exampleRx_peer exampleShell_def)
  have k2: "copyKey exampleExtern (rx_Key (exampleRx 4 0))
       \<notin> dom (deDupKeyMap (exampleShell True [examplePeerID 1 \<mapsto> examplePeer 1 2 pisActive []]))"
    by (simp add: exampleShell_def)
  have e2: "pkgReportKey exampleExtern (pi (examplePeer 1 2 pisActive []))
              \<lparr>rptk_Key = copyKey exampleExtern (rx_Key (exampleRx 4 0)), rptk_Status = KS_NOTEXIST\<rparr>
            = Some \<lparr>Pid = 3, Mid = 5, pkg_Key = exampleKey, PayloadLength = 1, Payload = [0]\<rparr>"
    by (simp add: exampleRx_key) (simp add: exampleExtern_def KS_NOTEXIST_def)
  have r1: "checkKeyFromPeer exampleExtern exampleKnown (exampleRx 4 0)
       = Some (exampleKnown\<lparr>peerActived := (peerActived exampleKnown)(rxPeerID (exampleRx 4 0) \<mapsto>
                  (examplePeer 1 2 pisActive [])\<lparr>txChan := (txChan (examplePeer 1 2 pisActive []))
                     \<lparr>buf := buf (txChan (examplePeer 1 2 pisActive []))
                         @ [\<lparr>Pid = 3, Mid = 5, pkg_Key = exampleKey, PayloadLength = 1, Payload = [1]\<rparr>]\<rparr>\<rparr>)\<rparr>,
               SchEnoNone)"
    using check_key_from_active_peer [OF exampleRx_decodes mid p1 act _ e1] k1 room by simp
  have r2: "checkKeyFromPeer exampleExtern
         (exampleShell True [examplePeerID 1 \<mapsto> examplePeer 1 2 pisActive []]) (exampleRx 4 0)
       = Some ((exampleShell True [examplePeerID 1 \<mapsto> examplePeer 1 2 pisActive []])
                 \<lparr>peerActived := (peerActived (exampleShell True [examplePeerID 1 \<mapsto> examplePeer 1 2 pisActive []]))
                    (rxPeerID (exampleRx 4 0) \<mapsto>
                  (examplePeer 1 2 pisActive [])\<lparr>txChan := (txChan (examplePeer 1 2 pisActive []))
                     \<lparr>buf := buf (txChan (examplePeer 1 2 pisActive []))
                         @ [\<lparr>Pid = 3, Mid = 5, pkg_Key = exampleKey, PayloadLength = 1, Payload = [0]\<rparr>]\<rparr>\<rparr>)\<rparr>,
               SchEnoNone)"
    using check_key_from_active_peer [OF exampleRx_decodes mid p2 act _ e2] k2 room by simp
  show ?thesis
    using r1 r2 p1 room k1 k2
    by (simp add: exampleRx_peer) (simp add: exampleKnown_def exampleShell_def examplePeer_def)
qed

text \<open>
  The claim as stated, a reply to every CHKK frame of an active peer, fails when the peer's
  tx channel is full: the reply is discarded and counted, and nothing is enqueued.
\<close>

theorem check_key_from_active_peer_counterexample:
  "em_Mid (the (GetExtMessage exampleExtern (rx2Package (exampleRx 4 0))))
     = word_of_int (MID_CHKK exampleExtern)
   \<and> peerActived (exampleShell True [examplePeerID 1 \<mapsto> examplePeer 1 1 pisActive [examplePkg]])
        (rxPeerID (exampleRx 4 0))
       = Some (examplePeer 1 1 pisActive [examplePkg])
   \<and> status (examplePeer 1 1 pisActive [examplePkg]) = pisActive
   \<and> checkKeyFromPeer exampleExtern
        (exampleShell True [examplePeerID 1 \<mapsto> examplePeer 1 1 pisActive [examplePkg]]) (exampleRx 4 0)
       = Some (exampleShell True
                 [examplePeerID 1 \<mapsto> (examplePeer 1 1 pisActive [examplePkg])\<lparr>txDiscrd := 1\<rparr>],
               SchEnoUserTask)
   \<and> buf (txChan ((examplePeer 1 1 pisActive [examplePkg])\<lparr>txDiscrd := 1\<rparr>)) = [examplePkg]"
  by (simp add: exampleRx_decodes exampleRx_peer checkKeyFromPeer_def Let_def)
     (simp add: exampleExtern_def exampleShell_def examplePeer_def reportKey2Peer_def chanLen_def)

subsection \<open>An RPTK frame from an active peer\<close>

text \<open>
  Claim C2, as the code has it. For an RPTK frame from a peer that is in the peer table
  with active status: without a pending entry for the key and the peer the frame is
  dropped with \<open>SchEnoNotFound\<close> and nothing changes; with an entry, its timer is
  killed, the entry is removed from the pending map, only the sender's peer entry can
  change, and the saved request is appended to the sender's tx channel if and only if the
  reported status is \<open>KS_NOTEXIST\<close> and the channel has room. With \<open>KS_NOTEXIST\<close>
  and a full channel the request is discarded, the peer's \<open>txDiscrd\<close> goes up by one
  and \<open>SchEnoResource\<close> is returned.
\<close>

theorem report_key_from_active_peer:
  assumes dec: "GetExtMessage E (rx2Package rxPkg) = Some msg"
    and mid: "em_Mid msg = word_of_int (MID_RPTK E)"
    and peer: "peerActived s (rxPeerID rxPkg) = Some pai"
    and act: "status pai = pisActive"
    and ddk: "ddk = \<lparr>key = copyKey E (rx_Key rxPkg), peer = rxPeerID rxPkg\<rparr>"
  shows "case deDupMap s ddk of
           None \<Rightarrow> reportKeyFromPeer E s rxPkg = Some (s, SchEnoNotFound)
         | Some ddv \<Rightarrow>
             (\<exists>s' eno pai' pkg.
                reportKeyFromPeer E s rxPkg = Some (s', eno)
                \<and> deDupMap s' = (deDupMap s)(ddk := None)
                \<and> tmDedup s' = KillTimer (tmDedup s) (timer ddv)
                \<and> (case timer ddv of None \<Rightarrow> True | Some h \<Rightarrow> tmTimers (tmDedup s') h = None)
                \<and> peerActived s' = (peerActived s)(rxPeerID rxPkg \<mapsto> pai')
                \<and> bcr2Package E (bcReq ddv) = Some pkg
                \<and> buf (txChan pai')
                    = (if rptk_Status (em_Rptk msg) = KS_NOTEXIST
                          \<and> chanLen (txChan pai) < cap (txChan pai)
                       then buf (txChan pai) @ [pkg] else buf (txChan pai))
                \<and> txDiscrd pai'
                    = (if rptk_Status (em_Rptk msg) = KS_NOTEXIST
                          \<and> cap (txChan pai) \<le> chanLen (txChan pai)
                       then txDiscrd pai + 1 else txDiscrd pai)
                \<and> eno = (if rptk_Status (em_Rptk msg) = KS_NOTEXIST
                             \<and> cap (txChan pai) \<le> chanLen (txChan pai)
                          then SchEnoResource else SchEnoNone))"
proof (cases "deDupMap s ddk")
  case None
  then show ?thesis
    using dec mid peer act ddk by (simp add: reportKeyFromPeer_def Let_def)
next
  case (Some ddv)
  define s1 where "s1 = s\<lparr>tmDedup := KillTimer (tmDedup s) (timer ddv),
                          deDupMap := (deDupMap s)(ddk := None)\<rparr>"
  obtain pkg where pkg: "bcr2Package E (bcReq ddv) = Some pkg"
    by (simp add: bcr2Package_def)
  have killed: "case timer ddv of None \<Rightarrow> True | Some h \<Rightarrow> tmTimers (tmDedup s1) h = None"
    by (simp add: s1_def KillTimer_def split: option.split)
  have same: "(peerActived s)(rxPeerID rxPkg \<mapsto> pai) = peerActived s"
    using peer by (simp add: fun_upd_idem)
  show ?thesis
  proof (cases "rptk_Status (em_Rptk msg) = KS_NOTEXIST")
    case False
    then have run: "reportKeyFromPeer E s rxPkg = Some (s1, SchEnoNone)"
      using dec mid peer act ddk Some by (simp add: reportKeyFromPeer_def Let_def s1_def)
    have "deDupMap s1 = (deDupMap s)(ddk := None)"
         "tmDedup s1 = KillTimer (tmDedup s) (timer ddv)"
         "peerActived s1 = (peerActived s)(rxPeerID rxPkg \<mapsto> pai)"
      using same by (simp_all add: s1_def)
    then show ?thesis
      using Some run killed pkg False
      by (simp del: ex_simps)
         (intro exI [of _ s1] exI [of _ SchEnoNone] exI [of _ pai] exI [of _ pkg], simp)
  next
    case notexist: True
    show ?thesis
    proof (cases "chanLen (txChan pai) < cap (txChan pai)")
      case True
      define pai' where "pai' = pai\<lparr>txChan := (txChan pai)\<lparr>buf := buf (txChan pai) @ [pkg]\<rparr>\<rparr>"
      have snd: "send2Peer E pai (bcReq ddv) = Some (pai', SchEnoNone)"
        using True pkg by (simp add: send2Peer_def chanSend_def pai'_def)
      have run: "reportKeyFromPeer E s rxPkg
                   = Some (s1\<lparr>peerActived := (peerActived s1)(rxPeerID rxPkg \<mapsto> pai')\<rparr>, SchEnoNone)"
        using dec mid peer act ddk Some notexist snd
        by (simp add: reportKeyFromPeer_def Let_def s1_def)
      have "buf (txChan pai') = buf (txChan pai) @ [pkg]" "txDiscrd pai' = txDiscrd pai"
        by (simp_all add: pai'_def)
      then show ?thesis
        using Some run killed pkg notexist True
        by (simp del: ex_simps)
           (intro exI [of _ "s1\<lparr>peerActived := (peerActived s1)(rxPeerID rxPkg \<mapsto> pai')\<rparr>"]
                  exI [of _ SchEnoNone] exI [of _ pai'] exI [of _ pkg],
            simp add: s1_def split: option.splits)
    next
      case False
      define pai' where "pai' = pai\<lparr>txDiscrd := txDiscrd pai + 1\<rparr>"
      have snd: "send2Peer E pai (bcReq ddv) = Some (pai', SchEnoResource)"
        using False by (simp add: send2Peer_def pai'_def)
      have run: "reportKeyFromPeer E s rxPkg
                   = Some (s1\<lparr>peerActived := (peerActived s1)(rxPeerID rxPkg \<mapsto> pai')\<rparr>, SchEnoResource)"
        using dec mid peer act ddk Some notexist snd
        by (simp add: reportKeyFromPeer_def Let_def s1_def)
      have "buf (txChan pai') = buf (txChan pai)" "txDiscrd pai' = txDiscrd pai + 1"
        by (simp_all add: pai'_def)
      then show ?thesis
        using Some run killed pkg notexist False
        by (simp del: ex_simps)
           (intro exI [of _ "s1\<lparr>peerActived := (peerActived s1)(rxPeerID rxPkg \<mapsto> pai')\<rparr>"]
                  exI [of _ SchEnoResource] exI [of _ pai'] exI [of _ pkg],
            simp add: s1_def split: option.splits)
    qed
  qed
qed

lemma examplePending_entry:
  "deDupMap (examplePending st c q) \<lparr>key = exampleKey, peer = examplePeerID 1\<rparr>
     = Some \<lparr>bcReq = exampleReq, timer = Some 0\<rparr>"
  by (simp add: examplePending_def)

lemma examplePending_peer:
  "peerActived (examplePending st c q) (examplePeerID 1) = Some (examplePeer 1 c st q)"
  by (simp add: examplePending_def exampleShell_def)

theorem report_key_from_active_peer_witness:
  "peerActived (examplePending pisActive 2 []) (rxPeerID (exampleRx 5 0))
     = Some (examplePeer 1 2 pisActive [])
   \<and> rptk_Status (em_Rptk (the (GetExtMessage exampleExtern (rx2Package (exampleRx 5 0)))))
       = KS_NOTEXIST
   \<and> map_option snd (reportKeyFromPeer exampleExtern (examplePending pisActive 2 []) (exampleRx 5 0))
       = Some SchEnoNone
   \<and> deDupMap (fst (the (reportKeyFromPeer exampleExtern (examplePending pisActive 2 []) (exampleRx 5 0))))
        \<lparr>key = exampleKey, peer = examplePeerID 1\<rparr> = None
   \<and> tmTimers (tmDedup (fst (the (reportKeyFromPeer exampleExtern (examplePending pisActive 2 [])
                                     (exampleRx 5 0))))) 0 = None
   \<and> map_option (buf \<circ> txChan)
        (peerActived (fst (the (reportKeyFromPeer exampleExtern (examplePending pisActive 2 [])
                                  (exampleRx 5 0)))) (examplePeerID 1))
       = Some [\<lparr>Pid = 3, Mid = 0, pkg_Key = [170], PayloadLength = 2, Payload = [104, 105]\<rparr>]
   \<and> rptk_Status (em_Rptk (the (GetExtMessage exampleExtern (rx2Package (exampleRx 5 1)))))
       = KS_EXIST
   \<and> map_option (buf \<circ> txChan)
        (peerActived (fst (the (reportKeyFromPeer exampleExtern (examplePending pisActive 2 [])
                                  (exampleRx 5 1)))) (examplePeerID 1))
       = Some []
   \<and> reportKeyFromPeer exampleExtern (exampleShell True [examplePeerID 1 \<mapsto> examplePeer 1 2 pisActive []])
        (exampleRx 5 0)
       = Some (exampleShell True [examplePeerID 1 \<mapsto> examplePeer 1 2 pisActive []], SchEnoNotFound)"
proof -
  have mid: "em_Mid \<lparr>em_Mid = word_of_int 5, em_Chkk = \<lparr>chkk_Key = [170]\<rparr>,
             em_Rptk = \<lparr>rptk_Key = [170], rptk_Status = ucast (b :: byte)\<rparr>\<rparr>
             = word_of_int (MID_RPTK exampleExtern)" for b
    by (simp add: exampleExtern_def)
  have act: "status (examplePeer 1 2 pisActive []) = pisActive"
    by (simp add: examplePeer_def)
  have ddk: "\<lparr>key = exampleKey, peer = examplePeerID 1\<rparr>
               = \<lparr>key = copyKey exampleExtern (rx_Key (exampleRx 5 b)), peer = rxPeerID (exampleRx 5 b)\<rparr>" for b
    by (simp add: exampleRx_key exampleRx_peer)
  have p: "peerActived (examplePending pisActive 2 []) (rxPeerID (exampleRx 5 b))
             = Some (examplePeer 1 2 pisActive [])" for b
    by (simp add: exampleRx_peer examplePending_peer)
  have p0: "peerActived (exampleShell True [examplePeerID 1 \<mapsto> examplePeer 1 2 pisActive []])
              (rxPeerID (exampleRx 5 0)) = Some (examplePeer 1 2 pisActive [])"
    by (simp add: exampleRx_peer exampleShell_def)
  have none: "deDupMap (exampleShell True [examplePeerID 1 \<mapsto> examplePeer 1 2 pisActive []])
                \<lparr>key = exampleKey, peer = examplePeerID 1\<rparr> = None"
    by (simp add: exampleShell_def)
  have pk: "bcr2Package exampleExtern exampleReq
              = Some \<lparr>Pid = 3, Mid = 0, pkg_Key = [170], PayloadLength = 2, Payload = [104, 105]\<rparr>"
    by (simp add: bcr2Package_def exampleExtern_def exampleReq_def)
  have room: "chanLen (txChan (examplePeer 1 2 pisActive [])) < cap (txChan (examplePeer 1 2 pisActive []))"
             "buf (txChan (examplePeer 1 2 pisActive [])) = []"
    by (simp_all add: examplePeer_def chanLen_def)
  have s0: "rptk_Status (em_Rptk (the (GetExtMessage exampleExtern (rx2Package (exampleRx 5 0)))))
       = KS_NOTEXIST"
    by (simp add: exampleRx_decodes KS_NOTEXIST_def)
  have s1: "rptk_Status (em_Rptk (the (GetExtMessage exampleExtern (rx2Package (exampleRx 5 1)))))
       = KS_EXIST"
    by (simp add: exampleRx_decodes KS_EXIST_def)
  have ne: "KS_EXIST \<noteq> KS_NOTEXIST"
    by (simp add: KS_EXIST_def KS_NOTEXIST_def)
  have a: "map_option snd (reportKeyFromPeer exampleExtern (examplePending pisActive 2 []) (exampleRx 5 0))
       = Some SchEnoNone
   \<and> deDupMap (fst (the (reportKeyFromPeer exampleExtern (examplePending pisActive 2 []) (exampleRx 5 0))))
        \<lparr>key = exampleKey, peer = examplePeerID 1\<rparr> = None
   \<and> tmTimers (tmDedup (fst (the (reportKeyFromPeer exampleExtern (examplePending pisActive 2 [])
                                     (exampleRx 5 0))))) 0 = None
   \<and> map_option (buf \<circ> txChan)
        (peerActived (fst (the (reportKeyFromPeer exampleExtern (examplePending pisActive 2 [])
                                  (exampleRx 5 0)))) (examplePeerID 1))
       = Some [\<lparr>Pid = 3, Mid = 0, pkg_Key = [170], PayloadLength = 2, Payload = [104, 105]\<rparr>]"
    using report_key_from_active_peer [OF exampleRx_decodes mid p act ddk, of 0]
          s0 room pk
    by (auto simp: examplePending_entry exampleRx_decodes exampleRx_peer)
  have b: "map_option (buf \<circ> txChan)
        (peerActived (fst (the (reportKeyFromPeer exampleExtern (examplePending pisActive 2 [])
                                  (exampleRx 5 1)))) (examplePeerID 1))
       = Some []"
    using report_key_from_active_peer [OF exampleRx_decodes mid p act ddk, of 1]
          s1 room pk ne
    by (auto simp: examplePending_entry exampleRx_decodes exampleRx_peer)
  have c: "reportKeyFromPeer exampleExtern (exampleShell True [examplePeerID 1 \<mapsto> examplePeer 1 2 pisActive []])
        (exampleRx 5 0)
       = Some (exampleShell True [examplePeerID 1 \<mapsto> examplePeer 1 2 pisActive []], SchEnoNotFound)"
    using report_key_from_active_peer [OF exampleRx_decodes mid p0 act ddk] none
    by simp
  show ?thesis
    using a b c p [of 0] s0 s1 by simp
qed

text \<open>
  The claim as stated, the saved request enqueued whenever the status is NOTEXIST, fails
  when the peer's tx channel is full: the entry is removed, and the request is discarded.
\<close>

theorem report_key_from_active_peer_counterexample:
  "map_option status (peerActived (examplePending pisActive 1 [examplePkg]) (rxPeerID (exampleRx 5 0)))
     = Some pisActive
   \<and> deDupMap (examplePending pisActive 1 [examplePkg])
        \<lparr>key = copyKey exampleExtern (rx_Key (exampleRx 5 0)), peer = rxPeerID (exampleRx 5 0)\<rparr>
       \<noteq> None
   \<and> rptk_Status (em_Rptk (the (GetExtMessage exampleExtern (rx2Package (exampleRx 5 0)))))
       = KS_NOTEXIST
   \<and> map_option snd
        (reportKeyFromPeer exampleExtern (examplePending pisActive 1 [examplePkg]) (exampleRx 5 0))
       = Some SchEnoResource
   \<and> map_option (buf \<circ> txChan)
        (peerActived
           (fst (the (reportKeyFromPeer exampleExtern (examplePending pisActive 1 [examplePkg])
                        (exampleRx 5 0))))
           (examplePeerID 1))
       = Some [examplePkg]"
  by (simp add: exampleRx_decodes exampleRx_peer exampleRx_key examplePending_entry
                examplePending_peer reportKeyFromPeer_def Let_def KS_NOTEXIST_def)
     (simp add: examplePeer_def send2Peer_def chanLen_def examplePending_def exampleShell_def
                exampleExtern_def)

text \<open>
  A pending entry that a frame did not clear is cleared when its timer expires.
\<close>

lemma pending_entry_cleared_by_timer:
  assumes "tmTimers (tmDedup s) h = Some t"
    and "tmStarted t"
    and "tmCb t = CbDeDupTimer"
    and "tmData t = DataDeDupKey ddk"
  shows "deDupMap (timerExpired s h) ddk = None"
  using assms by (simp add: timerExpired_def deDupTimerCb_def Let_def)

section \<open>Properties of the scheduler\<close>

subsection \<open>The free list and the busy list\<close>

lemma schGetTaskNode_result:
  assumes "schGetTaskNode sdl = Inr (sdl', eno, ptn)"
  shows "eno \<noteq> SchEnoDuplicated
       \<and> (eno = SchEnoNone \<longrightarrow>
            freeSize sdl' = freeSize sdl - 1 \<and> busySize sdl' = busySize sdl
            \<and> tkMap sdl' = tkMap sdl)"
  using assms
  by (auto simp: schGetTaskNode_def setLast_def setNext_def Let_def
           split: option.splits if_splits prod.splits)

lemma schTaskBusyEnque_result:
  assumes "schTaskBusyEnque sdl ptn = Inr (sdl', eno)"
  shows "eno = SchEnoNone \<or> eno = SchEnoParameter"
  using assms
  by (auto simp: schTaskBusyEnque_def Let_def split: option.splits)

lemma setTask_sizes:
  "freeSize (setTask sdl p t) = freeSize sdl" "busySize (setTask sdl p t) = busySize sdl"
  "tkMap (setTask sdl p t) = tkMap sdl"
  by (simp_all add: setTask_def)

lemma schCreateTask_duplicate_loses_node:
  assumes dup: "schCreateTask K sdl (Some td) = Inr (sdl', SchEnoDuplicated, r)"
  shows "freeSize sdl' + busySize sdl' = freeSize sdl + busySize sdl - 1 \<and> r = None
       \<and> tkMap sdl (TrimSpace (td_Name td)) \<noteq> None"
proof (cases "schGetTaskNode sdl")
  case (Inl pn)
  then show ?thesis
    using dup by (simp add: schCreateTask_def)
next
  case (Inr res)
  obtain sdl1 eno ptn where res: "res = (sdl1, eno, ptn)"
    by (cases res)
  note get = Inr [unfolded res]
  have eno: "eno \<noteq> SchEnoDuplicated"
    using schGetTaskNode_result [OF get] by simp
  show ?thesis
  proof (cases ptn)
    case None
    then show ?thesis
      using dup get eno by (simp add: schCreateTask_def)
  next
    case (Some p)
    show ?thesis
    proof (cases "eno = SchEnoNone")
      case False
      then show ?thesis
        using dup get eno Some by (simp add: schCreateTask_def)
    next
      case True
      have sz: "freeSize sdl1 = freeSize sdl - 1" "busySize sdl1 = busySize sdl" "tkMap sdl1 = tkMap sdl"
        using schGetTaskNode_result [OF get] True by simp_all
      show ?thesis
        using dup get Some True sz
        by (auto simp: schCreateTask_def Let_def setTask_sizes
                 split: if_splits option.splits sum.splits prod.splits
                 dest: schTaskBusyEnque_result)
    qed
  qed
qed

lemma schTaskBusyEnque_sizes:
  assumes "schTaskBusyEnque sdl (Some p) = Inr (sdl', eno)"
  shows "eno = SchEnoNone \<and> busySize sdl' = busySize sdl + 1 \<and> freeSize sdl' = freeSize sdl"
  using assms
  by (auto simp: schTaskBusyEnque_def setLast_def setNext_def Let_def split: option.splits)

lemma schCreateTask_success_keeps_sizes:
  assumes ok: "schCreateTask K sdl (Some td) = Inr (sdl', eno, Some p)"
  shows "freeSize sdl' + busySize sdl' = freeSize sdl + busySize sdl"
proof -
  obtain sdl1 where get: "schGetTaskNode sdl = Inr (sdl1, SchEnoNone, Some p)"
    using ok
    by (auto simp: schCreateTask_def Let_def
             split: if_splits option.splits sum.splits prod.splits)
  have sz: "freeSize sdl1 = freeSize sdl - 1" "busySize sdl1 = busySize sdl"
    using schGetTaskNode_result [OF get] by simp_all
  show ?thesis
    using ok get sz
    by (auto simp: schCreateTask_def Let_def setTask_sizes
             split: if_splits option.splits sum.splits prod.splits
             dest!: schTaskBusyEnque_sizes)
qed

text \<open>
  Claim C8. The invariant (free-list size plus busy-list size equals the pool size, every
  node in exactly one of the two lists) holds after initialisation and after a task is
  created, but the duplicate-name path of \<open>schCreateTask\<close> breaks it: the node taken
  from the free list is neither returned to it nor put on the busy list. On a pool of four
  nodes, creating a task named \<open>a\<close> twice returns \<open>SchEnoDuplicated\<close> the second time
  and leaves free size 2 and busy size 1, with node 1 in neither list.
\<close>

theorem duplicate_task_name_loses_node:
  "taskListsInv (schSchedulerInit exampleConst)
   \<and> createdResult exampleConst (schSchedulerInit exampleConst) (exampleTask ''a'')
       = Inr (SchEnoNone, Some 0)
   \<and> taskListsInv exampleOneTask
   \<and> freeNodes exampleOneTask = [1, 2, 3] \<and> busyNodes exampleOneTask = [0]
   \<and> createdResult exampleConst exampleOneTask (exampleTask ''a'') = Inr (SchEnoDuplicated, None)
   \<and> length (schTaskNodePool exampleDuplicate) = 4
   \<and> freeSize exampleDuplicate = 2 \<and> busySize exampleDuplicate = 1
   \<and> freeNodes exampleDuplicate = [2, 3] \<and> busyNodes exampleDuplicate = [0]
   \<and> \<not> taskListsInv exampleDuplicate"
  by code_simp

subsection \<open>The timer slot index of schKillTimer\<close>

lemma schKillTimer_at_limit:
  assumes "length (tmTab (task (schTaskNodePool sdl ! p))) = nat (schMaxTaskTimer K)"
    and "0 \<le> schMaxTaskTimer K"
  shows "schKillTimer K sdl (Some p) (schMaxTaskTimer K) stopped = Inl IndexOutOfRange"
  using assms by (simp add: schKillTimer_def)

lemma schKillTimer_in_range:
  assumes "length (tmTab (task (schTaskNodePool sdl ! p))) = nat (schMaxTaskTimer K)"
    and "0 \<le> tid" and "tid < schMaxTaskTimer K"
  shows "schKillTimer K sdl (Some p) tid stopped \<noteq> Inl IndexOutOfRange"
  using assms by (simp add: schKillTimer_def Let_def split: option.split)

text \<open>
  Claim C10. The parameter check of \<open>schKillTimer\<close> lets \<open>tid = schMaxTaskTimer\<close>
  through, and the index into the timer slot table is then out of range: with 16 slots
  (0 to 15), \<open>tid = 16\<close> panics, while 15 is served and 17 is rejected with
  \<open>SchEnoParameter\<close>.
\<close>

theorem kill_timer_index_at_limit:
  "schMaxTaskTimer exampleConst = 16
   \<and> length (tmTab (task (schTaskNodePool exampleOneTask ! 0))) = 16
   \<and> schKillTimer exampleConst exampleOneTask (Some 0) 16 True = Inl IndexOutOfRange
   \<and> schKillTimer exampleConst exampleOneTask (Some 0) 15 True = Inr SchEnoNone
   \<and> schKillTimer exampleConst exampleOneTask (Some 0) 17 True = Inr SchEnoParameter"
  by code_simp

end
